theory Spec2Isabelle
  imports Complex_Main "HOL-Library.Monad_Syntax"
begin

section \<open>Arena: data model\<close>

text \<open>
  A shallow embedding of the arena fight simulation: the abstract class \<open>Fighter\<close>, its three
  subclasses \<open>BaseFighter\<close>, \<open>HeavyFighter\<close> and \<open>ArcherFighter\<close>, and the physics functions
  \<open>checkCollisionWithWall\<close>, \<open>checkAndIncreaseStrength\<close> and \<open>updatePhysics\<close> of the component.

  Conventions of the embedding.
  \<^item> A TypeScript \<open>number\<close> is a \<open>real\<close>: arithmetic is exact, rounding of IEEE doubles is
    not modelled. \<open>Math.sqrt\<close>, \<open>Math.cos\<close>, \<open>Math.sin\<close>, \<open>Math.floor\<close>, \<open>Math.max\<close> and
    \<open>Math.min\<close> are \<open>sqrt\<close>, \<open>cos\<close>, \<open>sin\<close>, \<open>floor\<close>, \<open>max\<close> and \<open>min\<close>.
  \<^item> A method that mutates \<open>this\<close> takes the object and returns the updated object.
  \<^item> The fields \<open>x\<close>, \<open>y\<close>, \<open>vx\<close>, \<open>vy\<close> of a fighter are \<open>f_x\<close>, \<open>f_y\<close>, \<open>f_vx\<close>, \<open>f_vy\<close>;
    those of a bullet are \<open>b_x\<close>, \<open>b_y\<close>, \<open>b_vx\<close>, \<open>b_vy\<close>; those of a wall are \<open>w_x\<close>, \<open>w_y\<close>,
    \<open>w_radius\<close>. Every other field keeps its name.
  \<^item> The subclass of a fighter is the constructor of its \<open>variant\<close> field, which carries the
    fields the subclass adds; \<open>instanceof\<close> is a case distinction on it.
  \<^item> Every quotient \<open>dx / dist\<close>, \<open>dy / dist\<close> by a distance goes through \<open>unit_vector\<close>,
    which yields \<open>None\<close> on a zero denominator. A function that divides by a distance
    returns an \<open>option\<close>: \<open>None\<close> says that a unit vector was computed with denominator zero.
  \<^item> The four calls of \<open>Math.random()\<close> in one tick are four parameters of \<open>updatePhysics\<close>.
\<close>

record bullet =
  b_x :: real
  b_y :: real
  b_vx :: real
  b_vy :: real
  damage :: real
  active :: bool

record wall =
  w_x :: real
  w_y :: real
  w_radius :: real

record heavy =
  squareRotation :: real
  squareSize :: real
  squareDistance :: real
  squareRotationSpeed :: real
  shieldCharge :: real
  hasShield :: bool

record archer =
  bullets :: "bullet list"
  shootAngle :: real
  shootRotationSpeed :: real
  shootCooldown :: real
  shootCooldownMax :: real
  bulletSpeed :: real
  bulletRadius :: real

datatype variant =
    BaseFighter (regenTimer: real)
  | HeavyFighter heavy
  | ArcherFighter archer

record fighter =
  f_x :: real
  f_y :: real
  f_vx :: real
  f_vy :: real
  hp :: real
  maxHp :: real
  strength :: real
  radius :: real
  color :: string
  name :: string
  dealsBodyDamage :: bool
  speedMultiplier :: real
  strengthGainRate :: real
  variant :: variant

record arena =
  fighter1 :: "fighter option"
  fighter2 :: "fighter option"
  ballsInCollision :: bool
  walls :: "wall list"
  centerX :: real
  centerY :: real

section \<open>Distances and unit vectors\<close>

text \<open>\<open>Math.sqrt(dx * dx + dy * dy)\<close>, the expression every distance of the source is.\<close>

definition hypot :: "real \<Rightarrow> real \<Rightarrow> real" where
  "hypot dx dy = sqrt (dx * dx + dy * dy)"

text \<open>The pair \<open>(dx / dist, dy / dist)\<close> of the source; \<open>None\<close> when the denominator is zero.\<close>

definition unit_vector :: "real \<Rightarrow> real \<Rightarrow> real \<Rightarrow> (real \<times> real) option" where
  "unit_vector dx dy dst = (if dst = 0 then None else Some (dx / dst, dy / dst))"

section \<open>The class Fighter\<close>

text \<open>The constructor of the abstract class: the defaults the subclasses overwrite.\<close>

definition new_Fighter :: "real \<Rightarrow> real \<Rightarrow> string \<Rightarrow> string \<Rightarrow> real \<Rightarrow> real \<Rightarrow> variant \<Rightarrow> fighter" where
  "new_Fighter cx cy ccolor cname speedMul gainRate v =
     \<lparr> f_x = cx, f_y = cy, f_vx = 0, f_vy = 0, hp = 100, maxHp = 100, strength = 1,
       radius = 30, color = ccolor, name = cname, dealsBodyDamage = True,
       speedMultiplier = speedMul, strengthGainRate = gainRate, variant = v \<rparr>"

definition applyGravity :: "real \<Rightarrow> real \<Rightarrow> real \<Rightarrow> fighter \<Rightarrow> fighter option" where
  "applyGravity cX cY gravityStrength f =
     (let dx = cX - f_x f;
          dy = cY - f_y f;
          dst = hypot dx dy
      in if dst > 0 then
           do {
             (ux, uy) \<leftarrow> unit_vector dx dy dst;
             Some (f\<lparr> f_vx := f_vx f + ux * gravityStrength * speedMultiplier f,
                      f_vy := f_vy f + uy * gravityStrength * speedMultiplier f \<rparr>)
           }
         else Some f)"

definition applyDamping :: "real \<Rightarrow> fighter \<Rightarrow> fighter" where
  "applyDamping damping f = f\<lparr> f_vx := f_vx f * damping, f_vy := f_vy f * damping \<rparr>"

definition updatePosition :: "fighter \<Rightarrow> fighter" where
  "updatePosition f = f\<lparr> f_x := f_x f + f_vx f, f_y := f_y f + f_vy f \<rparr>"

definition isInCenterZone :: "real \<Rightarrow> real \<Rightarrow> fighter \<Rightarrow> bool" where
  "isInCenterZone cX cY f = (hypot (f_x f - cX) (f_y f - cY) < radius f)"

definition gainStrength :: "fighter \<Rightarrow> fighter" where
  "gainStrength f = f\<lparr> strength := strength f + strengthGainRate f \<rparr>"

text \<open>\<open>Fighter.takeDamage\<close>, the method of the base class.\<close>

definition Fighter_takeDamage :: "real \<Rightarrow> fighter \<Rightarrow> fighter" where
  "Fighter_takeDamage dmg f = f\<lparr> hp := max 0 (hp f - dmg) \<rparr>"

definition isAlive :: "fighter \<Rightarrow> bool" where
  "isAlive f = (hp f > 0)"

definition getDistanceTo :: "fighter \<Rightarrow> fighter \<Rightarrow> real" where
  "getDistanceTo f other = hypot (f_x f - f_x other) (f_y f - f_y other)"

section \<open>The class HeavyFighter\<close>

definition new_HeavyFighter :: "real \<Rightarrow> real \<Rightarrow> string \<Rightarrow> string \<Rightarrow> fighter" where
  "new_HeavyFighter cx cy ccolor cname =
     (new_Fighter cx cy ccolor cname 0.7 2
        (HeavyFighter \<lparr> squareRotation = 0, squareSize = 30, squareDistance = 60,
                        squareRotationSpeed = 0.05, shieldCharge = 0, hasShield = False \<rparr>))
     \<lparr> hp := 250, maxHp := 250, strength := 2, radius := 50, dealsBodyDamage := False \<rparr>"

definition Heavy_useSpecialAbility :: "real \<Rightarrow> real \<Rightarrow> fighter \<Rightarrow> fighter option" where
  "Heavy_useSpecialAbility cX cY f =
     (let dx = f_x f - cX;
          dy = f_y f - cY;
          dst = hypot dx dy
      in if dst < 100 \<and> dst > 0 then
           do {
             (ux, uy) \<leftarrow> unit_vector dx dy dst;
             Some (f\<lparr> f_vx := f_vx f + ux * 5, f_vy := f_vy f + uy * 5 \<rparr>)
           }
         else Some f)"

definition Heavy_passiveAbility :: "real \<Rightarrow> real \<Rightarrow> fighter \<Rightarrow> heavy \<Rightarrow> fighter" where
  "Heavy_passiveAbility cX cY f h =
     (let h1 = h\<lparr> squareRotation := squareRotation h + squareRotationSpeed h \<rparr>
      in if isInCenterZone cX cY f then
           (let h2 = h1\<lparr> shieldCharge := shieldCharge h1 + 1 \<rparr>
            in if shieldCharge h2 \<ge> 180 \<and> \<not> hasShield h2
               then f\<lparr> variant := HeavyFighter (h2\<lparr> hasShield := True, shieldCharge := 0 \<rparr>) \<rparr>
               else f\<lparr> variant := HeavyFighter h2 \<rparr>)
         else f\<lparr> variant := HeavyFighter h1 \<rparr>)"

text \<open>The override of \<open>takeDamage\<close>: an armed shield halves the damage and is consumed.\<close>

definition Heavy_takeDamage :: "real \<Rightarrow> fighter \<Rightarrow> heavy \<Rightarrow> fighter" where
  "Heavy_takeDamage dmg f h =
     (if hasShield h
      then f\<lparr> hp := max 0 (hp f - real_of_int \<lfloor>dmg * 0.5\<rfloor>),
               variant := HeavyFighter (h\<lparr> hasShield := False, shieldCharge := 0 \<rparr>) \<rparr>
      else f\<lparr> hp := max 0 (hp f - dmg) \<rparr>)"

definition getHasShield :: "fighter \<Rightarrow> bool" where
  "getHasShield f = (case variant f of HeavyFighter h \<Rightarrow> hasShield h | _ \<Rightarrow> False)"

definition getSquarePosition :: "fighter \<Rightarrow> heavy \<Rightarrow> real \<times> real" where
  "getSquarePosition f h =
     (f_x f + cos (squareRotation h) * squareDistance h,
      f_y f + sin (squareRotation h) * squareDistance h)"

definition isPointInSquare :: "fighter \<Rightarrow> heavy \<Rightarrow> real \<Rightarrow> real \<Rightarrow> bool" where
  "isPointInSquare f h px py =
     (let (sx, sy) = getSquarePosition f h;
          dx = px - sx;
          dy = py - sy;
          c = cos (- squareRotation h);
          s = sin (- squareRotation h);
          localX = dx * c - dy * s;
          localY = dx * s + dy * c;
          halfSize = squareSize h / 2
      in \<bar>localX\<bar> \<le> halfSize \<and> \<bar>localY\<bar> \<le> halfSize)"

definition checkSquareCollisionWithFighter :: "fighter \<Rightarrow> heavy \<Rightarrow> fighter \<Rightarrow> bool" where
  "checkSquareCollisionWithFighter f h other =
     (let (sx, sy) = getSquarePosition f h;
          dx = f_x other - sx;
          dy = f_y other - sy;
          dst = hypot dx dy;
          halfSize = squareSize h / 2;
          maxDist = sqrt 2 * halfSize + radius other
      in if dst > maxDist then False
         else isPointInSquare f h (f_x other) (f_y other) \<or> dst < halfSize + radius other)"

section \<open>The class BaseFighter\<close>

definition new_BaseFighter :: "real \<Rightarrow> real \<Rightarrow> string \<Rightarrow> string \<Rightarrow> fighter" where
  "new_BaseFighter cx cy ccolor cname =
     (new_Fighter cx cy ccolor cname 1.0 1 (BaseFighter 0))
     \<lparr> hp := 100, maxHp := 100, strength := 1, radius := 30 \<rparr>"

definition Base_useSpecialAbility :: "real \<Rightarrow> real \<Rightarrow> fighter \<Rightarrow> fighter option" where
  "Base_useSpecialAbility cX cY f =
     (let dx = cX - f_x f;
          dy = cY - f_y f;
          dst = hypot dx dy
      in if dst > 200 then
           do {
             (ux, uy) \<leftarrow> unit_vector dx dy dst;
             Some (f\<lparr> f_vx := f_vx f + ux * 2, f_vy := f_vy f + uy * 2 \<rparr>)
           }
         else Some f)"

definition Base_passiveAbility :: "fighter \<Rightarrow> real \<Rightarrow> fighter" where
  "Base_passiveAbility f timer =
     (let timer1 = timer + 1
      in if hp f < maxHp f * 0.5 \<and> timer1 \<ge> 120 \<and> hp f \<noteq> 0
         then f\<lparr> hp := min (maxHp f) (hp f + 1), variant := BaseFighter 0 \<rparr>
         else f\<lparr> variant := BaseFighter timer1 \<rparr>)"

section \<open>The class ArcherFighter\<close>

definition new_ArcherFighter :: "real \<Rightarrow> real \<Rightarrow> string \<Rightarrow> string \<Rightarrow> fighter" where
  "new_ArcherFighter cx cy ccolor cname =
     (new_Fighter cx cy ccolor cname 1.2 1
        (ArcherFighter \<lparr> bullets = [], shootAngle = 0, shootRotationSpeed = 0.08,
                         shootCooldown = 0, shootCooldownMax = 30, bulletSpeed = 8,
                         bulletRadius = 5 \<rparr>))
     \<lparr> hp := 150, maxHp := 150, strength := 3, radius := 28, dealsBodyDamage := False \<rparr>"

definition shootBullet :: "real \<Rightarrow> fighter \<Rightarrow> archer \<Rightarrow> archer" where
  "shootBullet angle f a =
     a\<lparr> bullets := bullets a @
         [\<lparr> b_x = f_x f + cos angle * radius f,
            b_y = f_y f + sin angle * radius f,
            b_vx = cos angle * bulletSpeed a * (1 + strength f * 0.24) + f_vx f,
            b_vy = sin angle * bulletSpeed a * (1 + strength f * 0.25) + f_vy f,
            damage = strength f,
            active = True \<rparr>] \<rparr>"

text \<open>The loop \<open>for (let i = 0; i < 8; i++)\<close> of the special ability.\<close>

definition Archer_useSpecialAbility :: "fighter \<Rightarrow> archer \<Rightarrow> fighter" where
  "Archer_useSpecialAbility f a =
     f\<lparr> variant := ArcherFighter
          (foldl (\<lambda>a' i. shootBullet ((pi * 2 * real i) / 8) f a') a [0..<8]) \<rparr>"

text \<open>The body of the \<open>forEach\<close> of \<open>updateBullets\<close>, for one bullet.\<close>

definition updateBullet :: "fighter \<Rightarrow> bullet \<Rightarrow> bullet" where
  "updateBullet f b =
     (if active b then
        (let b1 = b\<lparr> b_x := b_x b + b_vx b, b_y := b_y b + b_vy b \<rparr>;
             dst = hypot (b_x b1 - f_x f) (b_y b1 - f_y f)
         in if dst > 500 then b1\<lparr> active := False \<rparr> else b1)
      else b)"

definition updateBullets :: "fighter \<Rightarrow> archer \<Rightarrow> archer" where
  "updateBullets f a = a\<lparr> bullets := filter active (map (updateBullet f) (bullets a)) \<rparr>"

definition Archer_passiveAbility :: "fighter \<Rightarrow> archer \<Rightarrow> fighter" where
  "Archer_passiveAbility f a =
     (let a1 = a\<lparr> shootAngle := shootAngle a + shootRotationSpeed a \<rparr>;
          a2 = (if shootCooldown a1 > 0
                then a1\<lparr> shootCooldown := shootCooldown a1 - 1 \<rparr>
                else (shootBullet (shootAngle a1) f a1)
                       \<lparr> shootCooldown := shootCooldownMax a1 - strength f * 1.5 \<rparr>)
      in f\<lparr> variant := ArcherFighter (updateBullets f a2) \<rparr>)"

text \<open>The test of the \<open>forEach\<close> of \<open>checkBulletCollision\<close>: does this bullet hit \<open>other\<close>?\<close>

definition bulletHits :: "archer \<Rightarrow> fighter \<Rightarrow> bullet \<Rightarrow> bool" where
  "bulletHits a other b =
     (active b \<and> hypot (b_x b - f_x other) (b_y b - f_y other) < bulletRadius a + radius other)"

text \<open>\<open>checkBulletCollision\<close> returns the flag \<open>hit\<close> and deactivates the bullets that hit.\<close>

definition checkBulletCollision :: "archer \<Rightarrow> fighter \<Rightarrow> bool \<times> archer" where
  "checkBulletCollision a other =
     (list_ex (bulletHits a other) (bullets a),
      a\<lparr> bullets := map (\<lambda>b. if bulletHits a other b then b\<lparr> active := False \<rparr> else b)
                        (bullets a) \<rparr>)"

definition getBulletDamage :: "fighter \<Rightarrow> real" where
  "getBulletDamage f = strength f"

section \<open>Dynamic dispatch\<close>

definition passiveAbility :: "real \<Rightarrow> real \<Rightarrow> fighter \<Rightarrow> fighter" where
  "passiveAbility cX cY f =
     (case variant f of
        BaseFighter timer \<Rightarrow> Base_passiveAbility f timer
      | HeavyFighter h \<Rightarrow> Heavy_passiveAbility cX cY f h
      | ArcherFighter a \<Rightarrow> Archer_passiveAbility f a)"

definition useSpecialAbility :: "real \<Rightarrow> real \<Rightarrow> fighter \<Rightarrow> fighter option" where
  "useSpecialAbility cX cY f =
     (case variant f of
        BaseFighter timer \<Rightarrow> Base_useSpecialAbility cX cY f
      | HeavyFighter h \<Rightarrow> Heavy_useSpecialAbility cX cY f
      | ArcherFighter a \<Rightarrow> Some (Archer_useSpecialAbility f a))"

definition takeDamage :: "real \<Rightarrow> fighter \<Rightarrow> fighter" where
  "takeDamage dmg f =
     (case variant f of
        HeavyFighter h \<Rightarrow> Heavy_takeDamage dmg f h
      | _ \<Rightarrow> Fighter_takeDamage dmg f)"

section \<open>The arena\<close>

definition WALL_DISTANCE :: real where "WALL_DISTANCE = 400"
definition WALL_RADIUS :: real where "WALL_RADIUS = 40"
definition GRAVITY_STRENGTH :: real where "GRAVITY_STRENGTH = 0.5"
definition DAMPING :: real where "DAMPING = 0.98"
definition BALL_COLLISION_DAMPING :: real where "BALL_COLLISION_DAMPING = 1.5"
definition WALL_COLLISION_DAMPING :: real where "WALL_COLLISION_DAMPING = 0.6"

text \<open>The factory: the \<open>switch\<close> on the type tag, whose \<open>default\<close> is the base fighter.\<close>

definition createFighter :: "string \<Rightarrow> real \<Rightarrow> real \<Rightarrow> string \<Rightarrow> string \<Rightarrow> fighter" where
  "createFighter ty cx cy cname ccolor =
     (if ty = ''base'' then new_BaseFighter cx cy ccolor cname
      else if ty = ''heavy'' then new_HeavyFighter cx cy ccolor cname
      else if ty = ''archer'' then new_ArcherFighter cx cy ccolor cname
      else new_BaseFighter cx cy ccolor cname)"

definition updateWalls :: "arena \<Rightarrow> arena" where
  "updateWalls s =
     s\<lparr> walls :=
         [\<lparr> w_x = centerX s, w_y = centerY s - WALL_DISTANCE, w_radius = WALL_RADIUS \<rparr>,
          \<lparr> w_x = centerX s + WALL_DISTANCE, w_y = centerY s, w_radius = WALL_RADIUS \<rparr>,
          \<lparr> w_x = centerX s, w_y = centerY s + WALL_DISTANCE, w_radius = WALL_RADIUS \<rparr>,
          \<lparr> w_x = centerX s - WALL_DISTANCE, w_y = centerY s, w_radius = WALL_RADIUS \<rparr>] \<rparr>"

definition checkAndIncreaseStrength :: "arena \<Rightarrow> arena" where
  "checkAndIncreaseStrength s =
     (case (fighter1 s, fighter2 s) of
        (Some f1, Some f2) \<Rightarrow>
          s\<lparr> fighter1 := Some (if isInCenterZone (centerX s) (centerY s) f1
                                then gainStrength f1 else f1),
             fighter2 := Some (if isInCenterZone (centerX s) (centerY s) f2
                                then gainStrength f2 else f2) \<rparr>
      | _ \<Rightarrow> s)"

definition checkCollisionWithWall :: "fighter \<Rightarrow> wall \<Rightarrow> fighter option" where
  "checkCollisionWithWall f w =
     (let dx = f_x f - w_x w;
          dy = f_y f - w_y w;
          dst = hypot dx dy;
          minDist = radius f + w_radius w
      in if dst < minDist \<and> dst > 0 then
           do {
             (nx, ny) \<leftarrow> unit_vector dx dy dst;
             let overlap = minDist - dst;
             let f1 = f\<lparr> f_x := f_x f + nx * overlap, f_y := f_y f + ny * overlap \<rparr>;
             let dotProduct = f_vx f1 * nx + f_vy f1 * ny;
             Some (if dotProduct < 0
                   then f1\<lparr> f_vx := f_vx f1 - nx * dotProduct * WALL_COLLISION_DAMPING,
                            f_vy := f_vy f1 - ny * dotProduct * WALL_COLLISION_DAMPING \<rparr>
                   else f1)
           }
         else Some f)"

subsection \<open>The phases of one tick\<close>

text \<open>
  \<open>updatePhysics\<close> is one long function; it is cut here into the blocks the source
  separates by comments, in the source's order. Each block takes the fighters as the block
  before left them.
\<close>

text \<open>
  The square of a heavy fighter against the other fighter. \<open>inColl\<close> is \<open>ballsInCollision\<close>
  as the tick found it; the result carries the flag \<open>squareHit\<close>.
\<close>

definition squarePhase :: "bool \<Rightarrow> fighter \<Rightarrow> fighter \<Rightarrow> fighter \<times> fighter \<times> bool" where
  "squarePhase inColl f1 f2 =
     (let (f2a, hit1) =
            (case variant f1 of
               HeavyFighter h \<Rightarrow>
                 if checkSquareCollisionWithFighter f1 h f2 \<and> \<not> inColl
                 then (takeDamage (strength f1) f2, True) else (f2, False)
             | _ \<Rightarrow> (f2, False));
          (f1a, hit2) =
            (case variant f2a of
               HeavyFighter h \<Rightarrow>
                 if checkSquareCollisionWithFighter f2a h f1 \<and> \<not> inColl
                 then (takeDamage (strength f2a) f1, True) else (f1, hit1)
             | _ \<Rightarrow> (f1, hit1))
      in (f1a, f2a, hit2))"

text \<open>The bullets of an archer against the other fighter; the result carries \<open>bulletHit\<close>.\<close>

definition bulletPhase :: "fighter \<Rightarrow> fighter \<Rightarrow> fighter \<times> fighter \<times> bool" where
  "bulletPhase f1 f2 =
     (let (f1a, f2a, hit1) =
            (case variant f1 of
               ArcherFighter a \<Rightarrow>
                 (let (hit, a') = checkBulletCollision a f2;
                      f1' = f1\<lparr> variant := ArcherFighter a' \<rparr>
                  in if hit then (f1', takeDamage (getBulletDamage f1') f2, True)
                     else (f1', f2, False))
             | _ \<Rightarrow> (f1, f2, False));
          (f1b, f2b, hit2) =
            (case variant f2a of
               ArcherFighter a \<Rightarrow>
                 (let (hit, a') = checkBulletCollision a f1a;
                      f2' = f2a\<lparr> variant := ArcherFighter a' \<rparr>
                  in if hit then (takeDamage (getBulletDamage f2') f1a, f2', True)
                     else (f1a, f2', hit1))
             | _ \<Rightarrow> (f1a, f2a, hit1))
      in (f1b, f2b, hit2))"

text \<open>The damage of first contact, inside the branch \<open>dist < minDist && dist > 0\<close>.\<close>

definition bodyDamage :: "bool \<Rightarrow> bool \<Rightarrow> bool \<Rightarrow> fighter \<Rightarrow> fighter \<Rightarrow> fighter \<times> fighter" where
  "bodyDamage inColl squareHit bulletHit f1 f2 =
     (if \<not> inColl \<and> \<not> squareHit \<and> \<not> bulletHit then
        (let f2a = (if dealsBodyDamage f1 then takeDamage (strength f1) f2 else f2);
             f1a = (if dealsBodyDamage f2a then takeDamage (strength f2a) f1 else f1)
         in (f1a, f2a))
      else (f1, f2))"

text \<open>
  The body collision: damage, the flag, separation and impulse. \<open>dst\<close> and \<open>minDist\<close> were
  computed before the square and bullet blocks; \<open>r1 \<dots> r4\<close> are the values of \<open>Math.random()\<close>.
  The result carries the new value of \<open>ballsInCollision\<close>.
\<close>

definition bodyPhase ::
  "real \<times> real \<times> real \<times> real \<Rightarrow> real \<Rightarrow> real \<Rightarrow> bool \<Rightarrow> bool \<Rightarrow> bool \<Rightarrow> fighter \<Rightarrow> fighter
     \<Rightarrow> (fighter \<times> fighter \<times> bool) option" where
  "bodyPhase rnd dst minDist inColl squareHit bulletHit f1 f2 =
     (case rnd of (r1, r2, r3, r4) \<Rightarrow>
      if dst < minDist \<and> dst > 0 then
        do {
          let (f1a, f2a) = bodyDamage inColl squareHit bulletHit f1 f2;
          let flag = (if squareHit \<or> bulletHit then True else True);
          let dx = f_x f2a - f_x f1a;
          let dy = f_y f2a - f_y f1a;
          (nx, ny) \<leftarrow> unit_vector dx dy dst;
          let overlap = minDist - dst;
          let f1b = f1a\<lparr> f_x := f_x f1a - nx * overlap * 0.5, f_y := f_y f1a - ny * overlap * 0.5 \<rparr>;
          let f2b = f2a\<lparr> f_x := f_x f2a + nx * overlap * 0.5, f_y := f_y f2a + ny * overlap * 0.5 \<rparr>;
          let dvx = f_vx f2b - f_vx f1b;
          let dvy = f_vy f2b - f_vy f1b;
          let dotProduct = dvx * nx + dvy * ny;
          let f1c = f1b\<lparr> f_vx := f_vx f1b + nx * dotProduct * BALL_COLLISION_DAMPING * 2 * r1,
                         f_vy := f_vy f1b + ny * dotProduct * BALL_COLLISION_DAMPING * 2 * r2 \<rparr>;
          let f2c = f2b\<lparr> f_vx := f_vx f2b - nx * dotProduct * BALL_COLLISION_DAMPING * 2 * r3,
                         f_vy := f_vy f2b - ny * dotProduct * BALL_COLLISION_DAMPING * 2 * r4 \<rparr>;
          Some (f1c, f2c, flag)
        }
      else if squareHit \<or> bulletHit then Some (f1, f2, True)
      else Some (f1, f2, False))"

text \<open>The \<open>forEach\<close> over the walls: each wall against fighter 1, then against fighter 2.\<close>

primrec wallPhase :: "wall list \<Rightarrow> fighter \<Rightarrow> fighter \<Rightarrow> (fighter \<times> fighter) option" where
  "wallPhase [] f1 f2 = Some (f1, f2)"
| "wallPhase (w # ws) f1 f2 =
     do {
       f1a \<leftarrow> checkCollisionWithWall f1 w;
       f2a \<leftarrow> checkCollisionWithWall f2 w;
       wallPhase ws f1a f2a
     }"

text \<open>
  The start of a tick: gravity for both fighters, damping for both, the new positions of
  both, then the passive ability of both.
\<close>

definition movePhase :: "real \<Rightarrow> real \<Rightarrow> fighter \<Rightarrow> fighter \<Rightarrow> (fighter \<times> fighter) option" where
  "movePhase cX cY f1 f2 =
     do {
       g1 \<leftarrow> applyGravity cX cY GRAVITY_STRENGTH f1;
       g2 \<leftarrow> applyGravity cX cY GRAVITY_STRENGTH f2;
       let d1 = applyDamping DAMPING g1;
       let d2 = applyDamping DAMPING g2;
       let u1 = updatePosition d1;
       let u2 = updatePosition d2;
       let p1 = passiveAbility cX cY u1;
       let p2 = passiveAbility cX cY u2;
       Some (p1, p2)
     }"

subsection \<open>One tick\<close>

text \<open>
  \<open>updatePhysics\<close>, without the request for the next animation frame. It returns at once
  when a fighter is missing.
\<close>

definition updatePhysics :: "real \<times> real \<times> real \<times> real \<Rightarrow> arena \<Rightarrow> arena option" where
  "updatePhysics rnd s =
     (case (fighter1 s, fighter2 s) of
        (Some f1, Some f2) \<Rightarrow>
          do {
            (p1, p2) \<leftarrow> movePhase (centerX s) (centerY s) f1 f2;
            let dst = getDistanceTo p1 p2;
            let minDist = radius p1 + radius p2;
            let (q1, q2, squareHit) = squarePhase (ballsInCollision s) p1 p2;
            let (b1, b2, bulletHit) = bulletPhase q1 q2;
            (c1, c2, flag) \<leftarrow>
              bodyPhase rnd dst minDist (ballsInCollision s) squareHit bulletHit b1 b2;
            (w1, w2) \<leftarrow> wallPhase (walls s) c1 c2;
            Some (s\<lparr> fighter1 := Some w1, fighter2 := Some w2, ballsInCollision := flag \<rparr>)
          }
      | _ \<Rightarrow> Some s)"

section \<open>Operations on one fighter\<close>

text \<open>
  Everything the simulation does to a single fighter, as a value: the three steps of the
  integration, the two abilities, damage intake, strength gain and the wall response.
  \<open>perform\<close> runs one operation, \<open>performAll\<close> a sequence of them, left to right.
\<close>

datatype operation =
    ApplyGravity real real real
  | ApplyDamping real
  | UpdatePosition
  | PassiveAbility real real
  | UseSpecialAbility real real
  | TakeDamage real
  | GainStrength
  | CheckCollisionWithWall wall

fun perform :: "operation \<Rightarrow> fighter \<Rightarrow> fighter option" where
  "perform (ApplyGravity cX cY g) f = applyGravity cX cY g f"
| "perform (ApplyDamping d) f = Some (applyDamping d f)"
| "perform UpdatePosition f = Some (updatePosition f)"
| "perform (PassiveAbility cX cY) f = Some (passiveAbility cX cY f)"
| "perform (UseSpecialAbility cX cY) f = useSpecialAbility cX cY f"
| "perform (TakeDamage d) f = Some (takeDamage d f)"
| "perform GainStrength f = Some (gainStrength f)"
| "perform (CheckCollisionWithWall w) f = checkCollisionWithWall f w"

primrec performAll :: "operation list \<Rightarrow> fighter \<Rightarrow> fighter option" where
  "performAll [] f = Some f"
| "performAll (p # ps) f = Option.bind (perform p f) (performAll ps)"

text \<open>The damage an operation passes to \<open>takeDamage\<close>, if any, is not negative.\<close>

fun damageNonNegative :: "operation \<Rightarrow> bool" where
  "damageNonNegative (TakeDamage d) = (0 \<le> d)"
| "damageNonNegative _ = True"

text \<open>The invariant of the health: \<open>0 \<le> hp \<le> maxHp\<close>.\<close>

definition hpInRange :: "fighter \<Rightarrow> bool" where
  "hpInRange f = (0 \<le> hp f \<and> hp f \<le> maxHp f)"

text \<open>
  What a whole tick keeps of a fighter: the health in range, and strength and strength gain
  not negative (the damage a fighter deals is its strength). \<open>arenaOK\<close> says so of both
  fighters of an arena.
\<close>

definition fighterOK :: "fighter \<Rightarrow> bool" where
  "fighterOK f = (hpInRange f \<and> 0 \<le> strength f \<and> 0 \<le> strengthGainRate f)"

definition arenaOK :: "arena \<Rightarrow> bool" where
  "arenaOK s =
     ((case fighter1 s of Some f \<Rightarrow> fighterOK f | None \<Rightarrow> True) \<and>
      (case fighter2 s of Some f \<Rightarrow> fighterOK f | None \<Rightarrow> True))"

section \<open>Observers and example states\<close>

text \<open>The fields a subclass adds, read off a fighter; \<open>None\<close> for a fighter of another class.\<close>

definition heavyOf :: "fighter \<Rightarrow> heavy option" where
  "heavyOf f = (case variant f of HeavyFighter h \<Rightarrow> Some h | _ \<Rightarrow> None)"

definition archerOf :: "fighter \<Rightarrow> archer option" where
  "archerOf f = (case variant f of ArcherFighter a \<Rightarrow> Some a | _ \<Rightarrow> None)"

text \<open>The \<open>damage\<close> fields of the bullets an archer has in flight.\<close>

definition carriedDamages :: "fighter \<Rightarrow> real list" where
  "carriedDamages f = (case variant f of ArcherFighter a \<Rightarrow> map damage (bullets a) | _ \<Rightarrow> [])"

text \<open>
  A heavy fighter at the centre \<open>(0, 0)\<close> with health \<open>h0\<close>, one tick short of a full shield
  charge.
\<close>

definition heavyCharged :: "real \<Rightarrow> fighter" where
  "heavyCharged h0 =
     (new_HeavyFighter 0 0 ''red'' ''Heavy 1'')
       \<lparr> hp := h0,
         variant := HeavyFighter \<lparr> squareRotation = 0, squareSize = 30, squareDistance = 60,
                      squareRotationSpeed = 0.05, shieldCharge = 179, hasShield = False \<rparr> \<rparr>"

text \<open>A heavy fighter with an armed shield and health \<open>h0\<close>.\<close>

definition heavyArmed :: "real \<Rightarrow> fighter" where
  "heavyArmed h0 =
     (new_HeavyFighter 0 0 ''red'' ''Heavy 1'')
       \<lparr> hp := h0,
         variant := HeavyFighter \<lparr> squareRotation = 0, squareSize = 30, squareDistance = 60,
                      squareRotationSpeed = 0.05, shieldCharge = 42, hasShield = True \<rparr> \<rparr>"

text \<open>A base fighter with health \<open>h0\<close> whose regeneration timer stands at \<open>t0\<close>.\<close>

definition baseWounded :: "real \<Rightarrow> real \<Rightarrow> fighter" where
  "baseWounded h0 t0 =
     (new_BaseFighter 0 0 ''blue'' ''Base 1'') \<lparr> hp := h0, variant := BaseFighter t0 \<rparr>"

text \<open>A new base fighter at a given position.\<close>

definition baseAt :: "real \<Rightarrow> real \<Rightarrow> fighter" where
  "baseAt px py = new_BaseFighter px py ''blue'' ''Base 2''"

text \<open>The fields of a new archer, and a new archer whose strength has grown to \<open>s\<close>.\<close>

definition freshArcher :: archer where
  "freshArcher = \<lparr> bullets = [], shootAngle = 0, shootRotationSpeed = 0.08,
                    shootCooldown = 0, shootCooldownMax = 30, bulletSpeed = 8,
                    bulletRadius = 5 \<rparr>"

definition archerWithStrength :: "real \<Rightarrow> fighter" where
  "archerWithStrength s = (new_ArcherFighter 0 0 ''green'' ''Archer 1'') \<lparr> strength := s \<rparr>"

text \<open>
  A new archer that has run one passive tick, which emits its first bullet, and has then
  gained strength twice.
\<close>

definition archerAfterShot :: fighter where
  "archerAfterShot =
     gainStrength (gainStrength (passiveAbility 0 0 (new_ArcherFighter 0 0 ''green'' ''Archer 1'')))"



definition centreWall :: wall where
  "centreWall = \<lparr> w_x = 0, w_y = 0, w_radius = 40 \<rparr>"

text \<open>An arena centred at \<open>(0, 0)\<close> whose two fighters both sit on the centre.\<close>

definition coincidentArena :: arena where
  "coincidentArena =
     updateWalls \<lparr> fighter1 = Some (baseAt 0 0), fighter2 = Some (baseAt 0 0),
                   ballsInCollision = False, walls = [], centerX = 0, centerY = 0 \<rparr>"

text \<open>
  A base fighter on the horizontal axis through the centre: position \<open>(px, 0)\<close>, velocity
  \<open>(vx, 0)\<close>, health \<open>h\<close>, regeneration timer \<open>t\<close>.
\<close>

definition baseState :: "real \<Rightarrow> real \<Rightarrow> real \<Rightarrow> real \<Rightarrow> fighter" where
  "baseState px vx h t =
     (new_BaseFighter px 0 ''blue'' ''Base'') \<lparr> f_vx := vx, hp := h, variant := BaseFighter t \<rparr>"

text \<open>An arena centred at \<open>(0, 0)\<close>, its four walls in place, with two fighters and the flag.\<close>

definition duel :: "fighter \<Rightarrow> fighter \<Rightarrow> bool \<Rightarrow> arena" where
  "duel a b inColl =
     updateWalls \<lparr> fighter1 = Some a, fighter2 = Some b, ballsInCollision = inColl,
                   walls = [], centerX = 0, centerY = 0 \<rparr>"

text \<open>
  The distance \<open>dist\<close> that the next tick compares with the sum of the radii: the distance of
  the two centres after the tick has moved the fighters and run their passive abilities.
\<close>

definition contactDistance :: "arena \<Rightarrow> real option" where
  "contactDistance s =
     (case (fighter1 s, fighter2 s) of
        (Some f1, Some f2) \<Rightarrow>
          (case movePhase (centerX s) (centerY s) f1 f2 of
             Some (p1, p2) \<Rightarrow> Some (getDistanceTo p1 p2)
           | None \<Rightarrow> None)
      | _ \<Rightarrow> None)"

text \<open>
  Four successive states of a fight of two base fighters that run into each other head-on:
  before the first contact, and after each of the next three ticks.
\<close>

definition overlapRun0 :: arena where
  "overlapRun0 = duel (baseState (- 4911 / 98) (145149 / 4802) 100 0)
                      (baseState (4911 / 98) (- 145149 / 4802) 100 0) False"

definition overlapRun1 :: arena where
  "overlapRun1 = duel (baseState (- 30) (2951 / 98) 99 1) (baseState 30 (- 2951 / 98) 99 1) True"

definition overlapRun2 :: arena where
  "overlapRun2 = duel (baseState 0 30 99 2) (baseState 0 (- 30) 99 2) False"

definition overlapRun3 :: arena where
  "overlapRun3 = duel (baseState 30 (147 / 5) 98 3) (baseState (- 30) (- 147 / 5) 98 3) True"

text \<open>
  An archer at the centre \<open>(0, 0)\<close> of strength \<open>5\<close> with one bullet in flight, emitted at angle
  \<open>0.08\<close> while the strength was \<open>3\<close>: the bullet is at \<open>(bx, by)\<close> and is active or not, the
  aim angle is \<open>ang\<close> and the cooldown \<open>cd\<close>.
\<close>

definition archerState :: "real \<Rightarrow> real \<Rightarrow> bool \<Rightarrow> real \<Rightarrow> real \<Rightarrow> fighter" where
  "archerState bx by act ang cd =
     (new_ArcherFighter 0 0 ''green'' ''Archer 1'')
       \<lparr> strength := 5,
         variant := ArcherFighter
           \<lparr> bullets = [\<lparr> b_x = bx, b_y = by,
                          b_vx = cos (2 / 25) * 13.76, b_vy = sin (2 / 25) * 14,
                          damage = 3, active = act \<rparr>],
             shootAngle = ang, shootRotationSpeed = 0.08, shootCooldown = cd,
             shootCooldownMax = 30, bulletSpeed = 8, bulletRadius = 5 \<rparr> \<rparr>"

text \<open>
  One tick of \<open>archerAfterShot\<close> against a new base fighter at \<open>(60, 0)\<close>: the archer and the
  target after the tick has moved them (\<open>shotArcher1\<close>, \<open>shotTarget1\<close>) and after the bullet
  has struck (\<open>shotArcher2\<close>, \<open>shotTarget2\<close>); the arena before and after the tick.
\<close>

definition shotArcher1 :: fighter where
  "shotArcher1 = archerState (cos (2 / 25) * 55.52) (sin (2 / 25) * 56) True 0.16 24.5"

definition shotArcher2 :: fighter where
  "shotArcher2 = archerState (cos (2 / 25) * 55.52) (sin (2 / 25) * 56) False 0.16 24.5"

definition shotTarget0 :: fighter where
  "shotTarget0 = baseState 60 0 100 0"

definition shotTarget1 :: fighter where
  "shotTarget1 = baseState 59.51 (- 0.49) 100 1"

definition shotTarget2 :: fighter where
  "shotTarget2 = baseState 59.51 (- 0.49) 95 1"

definition shotArena0 :: arena where
  "shotArena0 = duel archerAfterShot shotTarget0 False"

definition shotArena1 :: arena where
  "shotArena1 = duel shotArcher2 shotTarget2 True"

text \<open>A new archer (strength \<open>3\<close>) with two active bullets, each carrying damage \<open>3\<close>.\<close>

definition archerTwoShots :: fighter where
  "archerTwoShots =
     (new_ArcherFighter 0 0 ''green'' ''Archer 1'')
       \<lparr> variant := ArcherFighter
           \<lparr> bullets = [\<lparr> b_x = 40, b_y = 0, b_vx = 8, b_vy = 0, damage = 3, active = True \<rparr>,
                        \<lparr> b_x = 45, b_y = 0, b_vx = 8, b_vy = 0, damage = 3, active = True \<rparr>],
             shootAngle = 0.08, shootRotationSpeed = 0.08, shootCooldown = 20,
             shootCooldownMax = 30, bulletSpeed = 8, bulletRadius = 5 \<rparr> \<rparr>"

text \<open>The \<open>active\<close> flags of the bullets of an archer.\<close>

definition activeFlags :: "fighter \<Rightarrow> bool list" where
  "activeFlags f = (case variant f of ArcherFighter a \<Rightarrow> map active (bullets a) | _ \<Rightarrow> [])"

section \<open>Closed forms of the functions that divide by a distance\<close>

text \<open>
  Each function that forms a unit vector does so under a test that the distance is positive,
  so it always returns a result; the result is given here without the \<open>option\<close>.
\<close>

lemma unit_vector_Some: "dst \<noteq> 0 \<Longrightarrow> unit_vector dx dy dst = Some (dx / dst, dy / dst)"
  by (simp add: unit_vector_def)

lemma applyGravity_Some:
  "applyGravity cX cY g f =
     Some (if hypot (cX - f_x f) (cY - f_y f) > 0
           then f\<lparr> f_vx := f_vx f + (cX - f_x f) / hypot (cX - f_x f) (cY - f_y f) * g * speedMultiplier f,
                    f_vy := f_vy f + (cY - f_y f) / hypot (cX - f_x f) (cY - f_y f) * g * speedMultiplier f \<rparr>
           else f)"
  by (simp add: applyGravity_def Let_def unit_vector_def)

lemma Base_useSpecialAbility_Some:
  "Base_useSpecialAbility cX cY f =
     Some (if hypot (cX - f_x f) (cY - f_y f) > 200
           then f\<lparr> f_vx := f_vx f + (cX - f_x f) / hypot (cX - f_x f) (cY - f_y f) * 2,
                    f_vy := f_vy f + (cY - f_y f) / hypot (cX - f_x f) (cY - f_y f) * 2 \<rparr>
           else f)"
  by (simp add: Base_useSpecialAbility_def Let_def unit_vector_def)

lemma Heavy_useSpecialAbility_Some:
  "Heavy_useSpecialAbility cX cY f =
     Some (if hypot (f_x f - cX) (f_y f - cY) < 100 \<and> hypot (f_x f - cX) (f_y f - cY) > 0
           then f\<lparr> f_vx := f_vx f + (f_x f - cX) / hypot (f_x f - cX) (f_y f - cY) * 5,
                    f_vy := f_vy f + (f_y f - cY) / hypot (f_x f - cX) (f_y f - cY) * 5 \<rparr>
           else f)"
  by (simp add: Heavy_useSpecialAbility_def Let_def unit_vector_def)

lemma checkCollisionWithWall_Some:
  "checkCollisionWithWall f w =
     Some (let dx = f_x f - w_x w; dy = f_y f - w_y w; dst = hypot dx dy;
               minDist = radius f + w_radius w
           in if dst < minDist \<and> dst > 0 then
                (let nx = dx / dst; ny = dy / dst; overlap = minDist - dst;
                     dotProduct = f_vx f * nx + f_vy f * ny
                 in if dotProduct < 0
                    then f\<lparr> f_x := f_x f + nx * overlap, f_y := f_y f + ny * overlap,
                             f_vx := f_vx f - nx * dotProduct * WALL_COLLISION_DAMPING,
                             f_vy := f_vy f - ny * dotProduct * WALL_COLLISION_DAMPING \<rparr>
                    else f\<lparr> f_x := f_x f + nx * overlap, f_y := f_y f + ny * overlap \<rparr>)
              else f)"
  by (simp add: checkCollisionWithWall_def Let_def unit_vector_def)

section \<open>The health stays in range\<close>

lemma sub_floor_half_le:
  assumes "0 \<le> (d::real)" and "a \<le> m"
  shows "a - real_of_int \<lfloor>d / 2\<rfloor> \<le> m"
proof -
  have "(0::int) \<le> \<lfloor>d / 2\<rfloor>" using assms(1) by simp
  then have "0 \<le> real_of_int \<lfloor>d / 2\<rfloor>" by (simp only: of_int_0_le_iff)
  with assms(2) show ?thesis by linarith
qed

lemma takeDamage_hpInRange:
  assumes "hpInRange f" and "0 \<le> d"
  shows "hpInRange (takeDamage d f)"
  using assms
  by (cases "variant f")
     (auto simp: takeDamage_def Fighter_takeDamage_def Heavy_takeDamage_def hpInRange_def
        intro: sub_floor_half_le)

lemma passiveAbility_hpInRange:
  assumes "hpInRange f"
  shows "hpInRange (passiveAbility cX cY f)"
  using assms
  by (cases "variant f")
     (auto simp: passiveAbility_def Base_passiveAbility_def Heavy_passiveAbility_def
        Archer_passiveAbility_def hpInRange_def Let_def)

lemma useSpecialAbility_hpInRange:
  assumes "hpInRange f"
  shows "\<exists>f'. useSpecialAbility cX cY f = Some f' \<and> hpInRange f'"
  using assms
  by (cases "variant f")
     (auto simp: useSpecialAbility_def Base_useSpecialAbility_Some Heavy_useSpecialAbility_Some
        Archer_useSpecialAbility_def hpInRange_def)

lemma perform_hpInRange:
  assumes "hpInRange f" and "damageNonNegative p"
  shows "\<exists>f'. perform p f = Some f' \<and> hpInRange f'"
proof (cases p)
  case (ApplyGravity cX cY g)
  then show ?thesis using assms(1) by (simp add: applyGravity_Some hpInRange_def)
next
  case (ApplyDamping d)
  then show ?thesis using assms(1) by (simp add: applyDamping_def hpInRange_def)
next
  case UpdatePosition
  then show ?thesis using assms(1) by (simp add: updatePosition_def hpInRange_def)
next
  case (PassiveAbility cX cY)
  then show ?thesis using assms(1) by (simp add: passiveAbility_hpInRange)
next
  case (UseSpecialAbility cX cY)
  then show ?thesis using assms(1) by (simp add: useSpecialAbility_hpInRange)
next
  case (TakeDamage d)
  then show ?thesis using assms by (simp add: takeDamage_hpInRange)
next
  case GainStrength
  then show ?thesis using assms(1) by (simp add: gainStrength_def hpInRange_def)
next
  case (CheckCollisionWithWall w)
  then show ?thesis using assms(1)
    by (simp add: checkCollisionWithWall_Some hpInRange_def Let_def)
qed

lemma createFighter_hpInRange: "hpInRange (createFighter ty cx cy n c)"
  by (simp add: createFighter_def new_BaseFighter_def new_HeavyFighter_def
      new_ArcherFighter_def new_Fighter_def hpInRange_def)


text \<open>
  Claim C1. For every fighter variant and every sequence of simulation operations (the
  integration steps, the passive and the special ability, damage intake, regeneration,
  strength gain, the wall response), a fighter whose health is within \<open>[0, maxHp]\<close>, as
  every created fighter's is, ends with its health within \<open>[0, maxHp]\<close>, provided every damage
  passed to \<open>takeDamage\<close> is non-negative. The sequence always runs to its end.
\<close>

theorem hp_always_in_range:
  assumes "hpInRange f" and "list_all damageNonNegative ops"
  shows "\<exists>f'. performAll ops f = Some f' \<and> hpInRange f'"
  using assms
proof (induction ops arbitrary: f)
  case Nil
  then show ?case by simp
next
  case (Cons p ps)
  from Cons.prems obtain f1 where f1: "perform p f = Some f1" "hpInRange f1"
    using perform_hpInRange [of f p] by auto
  from Cons.IH [OF f1(2)] Cons.prems(2) f1(1) show ?case by simp
qed

theorem hp_always_in_range_witness:
  "hpInRange (createFighter ''heavy'' 0 0 ''Heavy 1'' ''red'') \<and>
   list_all damageNonNegative [PassiveAbility 0 0, TakeDamage 300, GainStrength, TakeDamage 7] \<and>
   (\<exists>f'. performAll [PassiveAbility 0 0, TakeDamage 300, GainStrength, TakeDamage 7]
            (createFighter ''heavy'' 0 0 ''Heavy 1'' ''red'') = Some f' \<and> hpInRange f')"
proof -
  have a: "hpInRange (createFighter ''heavy'' 0 0 ''Heavy 1'' ''red'')"
    by (rule createFighter_hpInRange)
  have b: "list_all damageNonNegative [PassiveAbility 0 0, TakeDamage 300, GainStrength, TakeDamage 7]"
    by simp
  from hp_always_in_range [OF a b] a b show ?thesis by blast
qed


section \<open>Frame facts\<close>

lemma hypot_0 [simp]: "hypot 0 0 = 0"
  by (simp add: hypot_def)

lemma hypot_nonneg [simp]: "0 \<le> hypot dx dy"
  by (simp add: hypot_def)

lemma hypot_axis [simp]: "hypot dx 0 = \<bar>dx\<bar>" "hypot 0 dy = \<bar>dy\<bar>"
  by (simp_all add: hypot_def)

lemma hypot_le_sum_abs: "hypot dx dy \<le> \<bar>dx\<bar> + \<bar>dy\<bar>"
  using sqrt_sum_squares_le_sum_abs [of dx dy] by (simp add: hypot_def power2_eq_square)

lemma hypot_bound:
  assumes "\<bar>dx\<bar> \<le> a" and "\<bar>dy\<bar> \<le> b"
  shows "hypot dx dy \<le> a + b"
  using hypot_le_sum_abs [of dx dy] assms by linarith

lemma takeDamage_frame [simp]:
  "f_x (takeDamage d f) = f_x f" "f_y (takeDamage d f) = f_y f"
  "f_vx (takeDamage d f) = f_vx f" "f_vy (takeDamage d f) = f_vy f"
  "maxHp (takeDamage d f) = maxHp f" "strength (takeDamage d f) = strength f"
  "radius (takeDamage d f) = radius f" "dealsBodyDamage (takeDamage d f) = dealsBodyDamage f"
  "speedMultiplier (takeDamage d f) = speedMultiplier f"
  by (cases "variant f"; simp add: takeDamage_def Fighter_takeDamage_def Heavy_takeDamage_def)+

lemma takeDamage_Base [simp]:
  "variant f = BaseFighter t \<Longrightarrow> takeDamage d f = f\<lparr> hp := max 0 (hp f - d) \<rparr>"
  by (simp add: takeDamage_def Fighter_takeDamage_def)

lemma takeDamage_Archer [simp]:
  "variant f = ArcherFighter a \<Longrightarrow> takeDamage d f = f\<lparr> hp := max 0 (hp f - d) \<rparr>"
  by (simp add: takeDamage_def Fighter_takeDamage_def)

lemma variant_takeDamage_Heavy [simp]:
  "variant f = HeavyFighter h \<Longrightarrow>
     variant (takeDamage d f) =
       HeavyFighter (if hasShield h then h\<lparr> hasShield := False, shieldCharge := 0 \<rparr> else h)"
  by (simp add: takeDamage_def Heavy_takeDamage_def)

lemma hp_takeDamage_variant_update [simp]:
  "hp (takeDamage d (f\<lparr> variant := ArcherFighter a \<rparr>)) = max 0 (hp f - d)"
  by (simp add: takeDamage_def Fighter_takeDamage_def)

lemma bulletHits_frame [simp]:
  "bulletHits a (takeDamage d f) = bulletHits a f"
  "bulletHits a (f\<lparr> variant := v \<rparr>) = bulletHits a f"
  by (simp_all add: bulletHits_def fun_eq_iff)

lemma fst_checkBulletCollision [simp]:
  "fst (checkBulletCollision a f) = list_ex (bulletHits a f) (bullets a)"
  by (simp add: checkBulletCollision_def)

section \<open>Damage intake\<close>

text \<open>
  Claim C10. \<open>takeDamage\<close> on a fighter whose health is already \<open>0\<close> leaves the health at \<open>0\<close>
  for every non-negative damage. For a heavy fighter with an armed shield the call still
  consumes the shield: afterwards \<open>hasShield\<close> is false and \<open>shieldCharge\<close> is \<open>0\<close>, all other
  fields of the fighter's square and shield being as before.
\<close>

theorem takeDamage_at_zero_hp:
  assumes "hp f = 0" and "0 \<le> d"
  shows "hp (takeDamage d f) = 0 \<and>
         (\<forall>h. variant f = HeavyFighter h \<and> hasShield h \<longrightarrow>
              variant (takeDamage d f) = HeavyFighter (h\<lparr> hasShield := False, shieldCharge := 0 \<rparr>))"
proof -
  have "(0::int) \<le> \<lfloor>d / 2\<rfloor>" using assms(2) by simp
  then have fl: "0 \<le> real_of_int \<lfloor>d / 2\<rfloor>" by (simp only: of_int_0_le_iff)
  have "max 0 (0 - real_of_int \<lfloor>d / 2\<rfloor>) = 0" using fl by linarith
  moreover have "max 0 (0 - d) = 0" using assms(2) by linarith
  ultimately show ?thesis using assms(1)
    by (cases "variant f")
       (simp_all add: takeDamage_def Fighter_takeDamage_def Heavy_takeDamage_def)
qed

theorem takeDamage_at_zero_hp_witness:
  "hp (heavyArmed 0) = 0 \<and> (0::real) \<le> 10 \<and>
   variant (heavyArmed 0) =
     HeavyFighter \<lparr> squareRotation = 0, squareSize = 30, squareDistance = 60,
                    squareRotationSpeed = 0.05, shieldCharge = 42, hasShield = True \<rparr> \<and>
   hp (takeDamage 10 (heavyArmed 0)) = 0 \<and>
   variant (takeDamage 10 (heavyArmed 0)) =
     HeavyFighter \<lparr> squareRotation = 0, squareSize = 30, squareDistance = 60,
                    squareRotationSpeed = 0.05, shieldCharge = 0, hasShield = False \<rparr>"
proof -
  have h: "hp (heavyArmed 0) = 0"
    by (simp add: heavyArmed_def)
  have v: "variant (heavyArmed 0) =
     HeavyFighter \<lparr> squareRotation = 0, squareSize = 30, squareDistance = 60,
                    squareRotationSpeed = 0.05, shieldCharge = 42, hasShield = True \<rparr>"
    by (simp add: heavyArmed_def)
  have d: "(0::real) \<le> 10" by simp
  from takeDamage_at_zero_hp [OF h d] h v show ?thesis by simp
qed

section \<open>The shield of the heavy fighter\<close>

text \<open>
  Claim C4, as amended. For a heavy fighter with \<open>shieldCharge = 179\<close> and no shield, one
  passive tick inside the centre zone arms the shield and resets the charge to \<open>0\<close>, the
  health unchanged. The next \<open>takeDamage\<close> with damage \<open>10\<close> applies \<open>floor (10 * 0.5) = 5\<close>: the
  health becomes \<open>max 0 (hp - 5)\<close>, which is \<open>hp - 5\<close> exactly when the fighter has at least
  \<open>5\<close> health; the shield is disarmed and the charge is \<open>0\<close>.
\<close>

theorem heavy_shield_scenario:
  assumes "variant f = HeavyFighter h" and "shieldCharge h = 179" and "\<not> hasShield h"
    and "isInCenterZone cX cY f"
  shows "map_option hasShield (heavyOf (passiveAbility cX cY f)) = Some True \<and>
         map_option shieldCharge (heavyOf (passiveAbility cX cY f)) = Some 0 \<and>
         hp (passiveAbility cX cY f) = hp f \<and>
         hp (takeDamage 10 (passiveAbility cX cY f)) = max 0 (hp f - 5) \<and>
         (5 \<le> hp f \<longrightarrow> hp (takeDamage 10 (passiveAbility cX cY f)) = hp f - 5) \<and>
         map_option hasShield (heavyOf (takeDamage 10 (passiveAbility cX cY f))) = Some False \<and>
         map_option shieldCharge (heavyOf (takeDamage 10 (passiveAbility cX cY f))) = Some 0"
  using assms
  by (simp add: heavyOf_def passiveAbility_def Heavy_passiveAbility_def takeDamage_def
        Heavy_takeDamage_def Let_def)

theorem heavy_shield_scenario_witness:
  "variant (heavyCharged 250) = HeavyFighter \<lparr> squareRotation = 0, squareSize = 30, squareDistance = 60,
                      squareRotationSpeed = 0.05, shieldCharge = 179, hasShield = False \<rparr> \<and>
   isInCenterZone 0 0 (heavyCharged 250) \<and> 5 \<le> hp (heavyCharged 250) \<and>
   hp (takeDamage 10 (passiveAbility 0 0 (heavyCharged 250))) = 245 \<and>
   map_option hasShield (heavyOf (takeDamage 10 (passiveAbility 0 0 (heavyCharged 250)))) = Some False"
proof -
  have v: "variant (heavyCharged 250) = HeavyFighter \<lparr> squareRotation = 0, squareSize = 30, squareDistance = 60,
                      squareRotationSpeed = 0.05, shieldCharge = 179, hasShield = False \<rparr>"
    by (simp add: heavyCharged_def new_HeavyFighter_def new_Fighter_def)
  have z: "isInCenterZone 0 0 (heavyCharged 250)"
    by (simp add: heavyCharged_def new_HeavyFighter_def new_Fighter_def isInCenterZone_def)
  have h: "hp (heavyCharged 250) = 250"
    by (simp add: heavyCharged_def new_HeavyFighter_def new_Fighter_def)
  from heavy_shield_scenario [OF v _ _ z] v z h show ?thesis by simp
qed

text \<open>
  The claim as stated says the health drops by exactly \<open>5\<close>. A heavy fighter with \<open>3\<close> health
  loses \<open>3\<close>: the health is clamped at \<open>0\<close>.
\<close>

theorem heavy_shield_low_hp_counterexample:
  "isInCenterZone 0 0 (heavyCharged 3) \<and>
   map_option shieldCharge (heavyOf (heavyCharged 3)) = Some 179 \<and>
   map_option hasShield (heavyOf (heavyCharged 3)) = Some False \<and>
   hp (heavyCharged 3) = 3 \<and>
   hp (takeDamage 10 (passiveAbility 0 0 (heavyCharged 3))) = 0 \<and>
   hp (heavyCharged 3) - hp (takeDamage 10 (passiveAbility 0 0 (heavyCharged 3))) \<noteq> 5"
  by (simp add: heavyCharged_def new_HeavyFighter_def new_Fighter_def isInCenterZone_def heavyOf_def
        passiveAbility_def Heavy_passiveAbility_def takeDamage_def Heavy_takeDamage_def Let_def)

section \<open>The regeneration of the base fighter\<close>

text \<open>
  Claim C5. For a base fighter whose regeneration timer stands at \<open>t\<close>, the passive ability
  leaves the health as it is while the health is at least half of \<open>maxHp\<close> or is \<open>0\<close>. When the
  health is below half of \<open>maxHp\<close> and not \<open>0\<close> and the incremented timer reaches \<open>120\<close>, the
  health becomes \<open>min maxHp (hp + 1)\<close>, which never exceeds \<open>maxHp\<close> and is \<open>hp + 1\<close> for every
  \<open>maxHp\<close> of at least \<open>2\<close> (a base fighter's is \<open>100\<close>), and the timer is reset to \<open>0\<close>. Below
  the threshold of \<open>120\<close> the health is unchanged and the timer has advanced by one.
\<close>

theorem base_regeneration:
  assumes "variant f = BaseFighter t"
  shows "(maxHp f * 0.5 \<le> hp f \<or> hp f = 0 \<longrightarrow> hp (passiveAbility cX cY f) = hp f) \<and>
         (hp f < maxHp f * 0.5 \<and> hp f \<noteq> 0 \<and> 120 \<le> t + 1 \<longrightarrow>
            hp (passiveAbility cX cY f) = min (maxHp f) (hp f + 1) \<and>
            hp (passiveAbility cX cY f) \<le> maxHp f \<and>
            (2 \<le> maxHp f \<longrightarrow> hp (passiveAbility cX cY f) = hp f + 1) \<and>
            variant (passiveAbility cX cY f) = BaseFighter 0) \<and>
         (t + 1 < 120 \<longrightarrow>
            hp (passiveAbility cX cY f) = hp f \<and>
            variant (passiveAbility cX cY f) = BaseFighter (t + 1))"
  using assms
  by (auto simp: passiveAbility_def Base_passiveAbility_def Let_def)

theorem base_regeneration_witness:
  "variant (baseWounded 49 119) = BaseFighter 119 \<and>
   hp (baseWounded 49 119) < maxHp (baseWounded 49 119) * 0.5 \<and>
   hp (baseWounded 49 119) \<noteq> 0 \<and> (120::real) \<le> 119 + 1 \<and> 2 \<le> maxHp (baseWounded 49 119) \<and>
   hp (passiveAbility 0 0 (baseWounded 49 119)) = 50 \<and>
   variant (passiveAbility 0 0 (baseWounded 49 119)) = BaseFighter 0"
proof -
  have v: "variant (baseWounded 49 119) = BaseFighter 119"
    by (simp add: baseWounded_def)
  have h: "hp (baseWounded 49 119) = 49" "maxHp (baseWounded 49 119) = 100"
    by (simp_all add: baseWounded_def new_BaseFighter_def new_Fighter_def)
  from base_regeneration [OF v, of 0 0] v h show ?thesis by simp
qed

section \<open>The cooldown of the archer\<close>

text \<open>
  Claim C3, as amended. A passive tick of an archer whose cooldown is not positive emits a
  bullet and sets the cooldown to \<open>shootCooldownMax - strength * 1.5\<close>, with no floor; a
  positive cooldown is decremented by one instead. The new cooldown is negative as soon as
  \<open>strength * 1.5\<close> exceeds \<open>shootCooldownMax\<close>.
\<close>

theorem archer_cooldown_reset:
  assumes "variant f = ArcherFighter a"
  shows "(\<not> shootCooldown a > 0 \<longrightarrow>
            map_option shootCooldown (archerOf (passiveAbility cX cY f))
              = Some (shootCooldownMax a - strength f * 1.5)) \<and>
         (shootCooldown a > 0 \<longrightarrow>
            map_option shootCooldown (archerOf (passiveAbility cX cY f))
              = Some (shootCooldown a - 1)) \<and>
         (\<not> shootCooldown a > 0 \<and> shootCooldownMax a < strength f * 1.5 \<longrightarrow>
            map_option shootCooldown (archerOf (passiveAbility cX cY f)) \<noteq> None \<and>
            the (map_option shootCooldown (archerOf (passiveAbility cX cY f))) < 0)"
  using assms
  by (simp add: archerOf_def passiveAbility_def Archer_passiveAbility_def Let_def
        shootBullet_def updateBullets_def)

theorem archer_cooldown_reset_witness:
  "variant (archerWithStrength 3) = ArcherFighter \<lparr> bullets = [], shootAngle = 0, shootRotationSpeed = 0.08,
                         shootCooldown = 0, shootCooldownMax = 30, bulletSpeed = 8,
                         bulletRadius = 5 \<rparr> \<and>
   map_option shootCooldown (archerOf (passiveAbility 0 0 (archerWithStrength 3))) = Some 25.5"
proof -
  have v: "variant (archerWithStrength 3) = ArcherFighter \<lparr> bullets = [], shootAngle = 0, shootRotationSpeed = 0.08,
                         shootCooldown = 0, shootCooldownMax = 30, bulletSpeed = 8,
                         bulletRadius = 5 \<rparr>"
    by (simp add: archerWithStrength_def new_ArcherFighter_def new_Fighter_def)
  have s: "strength (archerWithStrength 3) = 3"
    by (simp add: archerWithStrength_def new_ArcherFighter_def new_Fighter_def)
  from archer_cooldown_reset [OF v, of 0 0] v s show ?thesis by simp
qed

text \<open>
  The claim as stated has the cooldown clamped at a positive floor. An archer of strength
  \<open>22\<close> leaves its passive emission with cooldown \<open>30 - 33 = -3\<close>.
\<close>

theorem archer_cooldown_negative_counterexample:
  "map_option shootCooldown (archerOf (archerWithStrength 22)) = Some 0 \<and>
   map_option shootCooldown (archerOf (passiveAbility 0 0 (archerWithStrength 22))) = Some (- 3) \<and>
   (- 3 :: real) < 0"
  by (simp add: archerWithStrength_def new_ArcherFighter_def new_Fighter_def archerOf_def
      passiveAbility_def Archer_passiveAbility_def Let_def shootBullet_def updateBullets_def)

section \<open>The velocity of a bullet\<close>

text \<open>
  The bullet that \<open>shootBullet\<close> appends: its horizontal velocity is scaled by
  \<open>1 + strength * 0.24\<close>, its vertical velocity by \<open>1 + strength * 0.25\<close>.
\<close>

lemma shootBullet_velocity:
  "map b_vx (bullets (shootBullet angle f a)) =
     map b_vx (bullets a) @ [cos angle * bulletSpeed a * (1 + strength f * 0.24) + f_vx f] \<and>
   map b_vy (bullets (shootBullet angle f a)) =
     map b_vy (bullets a) @ [sin angle * bulletSpeed a * (1 + strength f * 0.25) + f_vy f]"
  by (simp add: shootBullet_def)

text \<open>
  Claim C8 says that the initial velocity of a bullet is the unit direction
  \<open>(cos \<theta>, sin \<theta>)\<close> scaled by the bullet speed and by one multiplier, the same for both
  components, plus the velocity of the archer. The code does otherwise: for a new archer
  (strength \<open>3\<close>, at rest, bullet speed \<open>8\<close>) shooting at \<open>\<theta> = \<pi> / 4\<close>, where both components of
  the direction are equal, the bullet leaves with velocity \<open>(6.88 * sqrt 2, 7 * sqrt 2)\<close>, and
  no single multiplier \<open>m\<close> gives both components.
\<close>

theorem shootBullet_two_multipliers:
  "map b_vx (bullets (shootBullet (pi / 4) (archerWithStrength 3) freshArcher)) = [sqrt 2 * 6.88] \<and>
   map b_vy (bullets (shootBullet (pi / 4) (archerWithStrength 3) freshArcher)) = [sqrt 2 * 7] \<and>
   f_vx (archerWithStrength 3) = 0 \<and> f_vy (archerWithStrength 3) = 0 \<and>
   bulletSpeed freshArcher = 8 \<and>
   (\<nexists>m. sqrt 2 * 6.88 = cos (pi / 4) * 8 * m + 0 \<and> sqrt 2 * 7 = sin (pi / 4) * 8 * m + 0)"
proof -
  have vals:
    "map b_vx (bullets (shootBullet (pi / 4) (archerWithStrength 3) freshArcher)) = [sqrt 2 * 6.88]"
    "map b_vy (bullets (shootBullet (pi / 4) (archerWithStrength 3) freshArcher)) = [sqrt 2 * 7]"
    "f_vx (archerWithStrength 3) = 0" "f_vy (archerWithStrength 3) = 0"
    "bulletSpeed freshArcher = 8"
    by (simp_all add: shootBullet_def freshArcher_def archerWithStrength_def new_ArcherFighter_def
        new_Fighter_def cos_45 sin_45)
  have "\<not> (sqrt 2 * 6.88 = cos (pi / 4) * 8 * m + 0 \<and> sqrt 2 * 7 = sin (pi / 4) * 8 * m + 0)"
    for m :: real
  proof
    assume "sqrt 2 * 6.88 = cos (pi / 4) * 8 * m + 0 \<and> sqrt 2 * 7 = sin (pi / 4) * 8 * m + 0"
    then have "25 * m = 43" and "4 * m = 7" by (simp_all add: cos_45 sin_45)
    then show False by linarith
  qed
  then have "\<nexists>m. sqrt 2 * 6.88 = cos (pi / 4) * 8 * m + 0 \<and> sqrt 2 * 7 = sin (pi / 4) * 8 * m + 0"
    by blast
  with vals show ?thesis by blast
qed

section \<open>The damage of a bullet\<close>

lemma first_shot_in_range: "\<not> 500 < hypot (1044 * cos (2 / 25) / 25) (42 * sin (2 / 25))"
proof -
  have c: "\<bar>cos (2 / 25 :: real)\<bar> \<le> 1" and s: "\<bar>sin (2 / 25 :: real)\<bar> \<le> 1"
    by simp_all
  have "\<bar>1044 * cos (2 / 25 :: real) / 25\<bar> \<le> 1044 / 25" using c by (simp add: abs_mult)
  moreover have "\<bar>42 * sin (2 / 25 :: real)\<bar> \<le> 42" using s by (simp add: abs_mult)
  ultimately have "hypot (1044 * cos (2 / 25) / 25) (42 * sin (2 / 25)) \<le> 1044 / 25 + 42"
    by (rule hypot_bound)
  then show ?thesis by simp
qed

lemma archerAfterShot_eq:
  "archerAfterShot =
     (new_ArcherFighter 0 0 ''green'' ''Archer 1'')
       \<lparr> strength := 5,
         variant := ArcherFighter
           \<lparr> bullets = [\<lparr> b_x = cos (2 / 25) * 41.76, b_y = sin (2 / 25) * 42,
                          b_vx = cos (2 / 25) * 13.76, b_vy = sin (2 / 25) * 14,
                          damage = 3, active = True \<rparr>],
             shootAngle = 0.08, shootRotationSpeed = 0.08, shootCooldown = 25.5,
             shootCooldownMax = 30, bulletSpeed = 8, bulletRadius = 5 \<rparr> \<rparr>"
  by (simp add: archerAfterShot_def gainStrength_def passiveAbility_def Archer_passiveAbility_def
      new_ArcherFighter_def new_Fighter_def Let_def shootBullet_def updateBullets_def updateBullet_def
      first_shot_in_range)

lemma bulletPhase_first:
  assumes "variant f1 = ArcherFighter a" and "fst (checkBulletCollision a f2)"
  shows "hp (fst (snd (bulletPhase f1 f2))) = hp (takeDamage (strength f1) f2)"
  using assms
  by (cases "variant f2")
     (auto simp: bulletPhase_def Let_def getBulletDamage_def checkBulletCollision_def
        split: prod.splits)

lemma bulletPhase_second:
  assumes "variant f2 = ArcherFighter a" and "fst (checkBulletCollision a f1)"
  shows "hp (fst (bulletPhase f1 f2)) = hp (takeDamage (strength f2) f1)"
  using assms
  by (cases "variant f1")
     (auto simp: bulletPhase_def Let_def getBulletDamage_def checkBulletCollision_def
        split: prod.splits)

text \<open>
  Whichever seat the archer has, a bullet that strikes makes the other fighter take the
  archer's strength of that moment as damage.
\<close>

lemma bulletPhase_damage_is_strength:
  "(variant f1 = ArcherFighter a \<and> fst (checkBulletCollision a f2) \<longrightarrow>
      hp (fst (snd (bulletPhase f1 f2))) = hp (takeDamage (strength f1) f2)) \<and>
   (variant f2 = ArcherFighter a \<and> fst (checkBulletCollision a f1) \<longrightarrow>
      hp (fst (bulletPhase f1 f2)) = hp (takeDamage (strength f2) f1))"
  using bulletPhase_first [of f1 a f2] bulletPhase_second [of f2 a f1] by blast

section \<open>The response to a wall\<close>

text \<open>
  Over the exact reals the push puts the centre of the fighter at distance \<open>minDist\<close> from the
  centre of the wall, and the normal is a unit vector. These are facts of exact arithmetic
  only: the rounding of doubles is not modelled here, and with it the distance after the
  push can fall just short of \<open>minDist\<close>. The theorem of the claim below does not use them.
\<close>

lemma hypot_scale: "hypot (k * dx) (k * dy) = \<bar>k\<bar> * hypot dx dy"
proof -
  have "(k * dx) * (k * dx) + (k * dy) * (k * dy) = k\<^sup>2 * (dx * dx + dy * dy)"
    by (simp add: power2_eq_square algebra_simps)
  then show ?thesis
    by (simp add: hypot_def real_sqrt_mult)
qed

lemma pushed_out_distance:
  assumes "0 < hypot dx dy" and "hypot dx dy < m"
  shows "hypot (dx + dx / hypot dx dy * (m - hypot dx dy)) (dy + dy / hypot dx dy * (m - hypot dx dy)) = m"
proof -
  let ?d = "hypot dx dy"
  have d: "?d \<noteq> 0" using assms(1) by simp
  have x: "dx + dx / ?d * (m - ?d) = (m / ?d) * dx"
    using d by (simp add: field_simps)
  have y: "dy + dy / ?d * (m - ?d) = (m / ?d) * dy"
    using d by (simp add: field_simps)
  have "hypot ((m / ?d) * dx) ((m / ?d) * dy) = \<bar>m / ?d\<bar> * ?d"
    by (rule hypot_scale)
  also have "\<dots> = m" using assms by (simp add: abs_if field_simps)
  finally show ?thesis by (simp only: x y)
qed

lemma unit_normal:
  assumes "0 < hypot dx dy"
  shows "(dx / hypot dx dy) * (dx / hypot dx dy) + (dy / hypot dx dy) * (dy / hypot dx dy) = 1"
proof -
  let ?d = "hypot dx dy"
  have sq: "?d * ?d = dx * dx + dy * dy"
    by (simp add: hypot_def)
  have "(dx / ?d) * (dx / ?d) + (dy / ?d) * (dy / ?d) = (dx * dx + dy * dy) / (?d * ?d)"
    by (simp add: add_divide_distrib)
  also have "\<dots> = 1" using assms by (simp only: sq [symmetric]) simp
  finally show ?thesis .
qed




section \<open>No unit vector with a zero denominator\<close>

lemma bodyPhase_Some:
  "\<exists>c1 c2. bodyPhase rnd dst minDist inColl squareHit bulletHit f1 f2
             = Some (c1, c2, (dst < minDist \<and> dst > 0) \<or> squareHit \<or> bulletHit)"
  by (cases rnd) (auto simp: bodyPhase_def unit_vector_def Let_def split: prod.splits)

lemma bodyPhase_zero:
  "bodyPhase rnd 0 minDist inColl squareHit bulletHit f1 f2 = Some (f1, f2, squareHit \<or> bulletHit)"
  by (cases rnd) (auto simp: bodyPhase_def)

lemma wallPhase_Some: "\<exists>w1 w2. wallPhase ws f1 f2 = Some (w1, w2)"
proof (induction ws arbitrary: f1 f2)
  case Nil
  show ?case by simp
next
  case (Cons w ws)
  obtain g1 where g1: "checkCollisionWithWall f1 w = Some g1"
    by (simp add: checkCollisionWithWall_Some)
  obtain g2 where g2: "checkCollisionWithWall f2 w = Some g2"
    by (simp add: checkCollisionWithWall_Some)
  from Cons.IH [of g1 g2] g1 g2 show ?case by simp
qed

lemma movePhase_Some: "\<exists>p1 p2. movePhase cX cY f1 f2 = Some (p1, p2)"
  by (simp add: movePhase_def applyGravity_Some Let_def)

lemma updatePhysics_Some: "\<exists>s'. updatePhysics rnd s = Some s'"
proof (cases "fighter1 s")
  case None
  then show ?thesis by (simp add: updatePhysics_def)
next
  case f1: (Some f1)
  show ?thesis
  proof (cases "fighter2 s")
    case None
    with f1 show ?thesis by (simp add: updatePhysics_def)
  next
    case f2: (Some f2)
    obtain p1 p2 where m: "movePhase (centerX s) (centerY s) f1 f2 = Some (p1, p2)"
      using movePhase_Some by blast
    obtain q1 q2 sq where q: "squarePhase (ballsInCollision s) p1 p2 = (q1, q2, sq)"
      by (metis prod_cases3)
    obtain b1 b2 bu where b: "bulletPhase q1 q2 = (b1, b2, bu)"
      by (metis prod_cases3)
    obtain c1 c2 fl where c:
      "bodyPhase rnd (getDistanceTo p1 p2) (radius p1 + radius p2) (ballsInCollision s) sq bu b1 b2
         = Some (c1, c2, fl)"
      using bodyPhase_Some by blast
    obtain w1 w2 where w: "wallPhase (walls s) c1 c2 = Some (w1, w2)"
      using wallPhase_Some by blast
    from f1 f2 m q b c w show ?thesis
      by (simp add: updatePhysics_def Let_def)
  qed
qed

text \<open>
  Claim C9. Every unit vector of the simulation is computed under a test that the distance is
  positive. A tick therefore always completes without a zero denominator (\<open>updatePhysics\<close>
  never yields \<open>None\<close>), and so do gravity, the wall response, the body collision and the
  special abilities taken alone. When the distance is exactly zero the force or response is
  skipped: gravity and the wall response return the fighter unchanged, and the body
  collision returns both fighters unchanged.
\<close>

theorem no_zero_denominator:
  "(\<exists>s'. updatePhysics rnd s = Some s') \<and>
   (\<exists>f'. applyGravity cX cY g f = Some f') \<and>
   (hypot (cX - f_x f) (cY - f_y f) = 0 \<longrightarrow> applyGravity cX cY g f = Some f) \<and>
   (\<exists>f'. checkCollisionWithWall f w = Some f') \<and>
   (hypot (f_x f - w_x w) (f_y f - w_y w) = 0 \<longrightarrow> checkCollisionWithWall f w = Some f) \<and>
   (\<exists>r. bodyPhase rnd dst minDist inColl squareHit bulletHit f1 f2 = Some r) \<and>
   bodyPhase rnd 0 minDist inColl squareHit bulletHit f1 f2 = Some (f1, f2, squareHit \<or> bulletHit) \<and>
   (\<exists>f'. useSpecialAbility cX cY f = Some f')"
proof -
  have "\<exists>r. bodyPhase rnd dst minDist inColl squareHit bulletHit f1 f2 = Some r"
    using bodyPhase_Some [of rnd dst minDist inColl squareHit bulletHit f1 f2] by blast
  moreover have "\<exists>f'. useSpecialAbility cX cY f = Some f'"
    by (cases "variant f")
       (simp_all add: useSpecialAbility_def Base_useSpecialAbility_Some Heavy_useSpecialAbility_Some)
  ultimately show ?thesis
    by (simp add: updatePhysics_Some applyGravity_Some checkCollisionWithWall_Some bodyPhase_zero
        Let_def)
qed

theorem no_zero_denominator_witness:
  "hypot (0 - f_x (baseAt 0 0)) (0 - f_y (baseAt 0 0)) = 0 \<and>
   applyGravity 0 0 GRAVITY_STRENGTH (baseAt 0 0) = Some (baseAt 0 0) \<and>
   hypot (f_x (baseAt 0 0) - w_x centreWall) (f_y (baseAt 0 0) - w_y centreWall) = 0 \<and>
   checkCollisionWithWall (baseAt 0 0) centreWall = Some (baseAt 0 0) \<and>
   (\<exists>s'. updatePhysics (0, 0, 0, 0) coincidentArena = Some s')"
proof -
  have a: "hypot (0 - f_x (baseAt 0 0)) (0 - f_y (baseAt 0 0)) = 0"
    by (simp add: baseAt_def new_BaseFighter_def new_Fighter_def)
  have b: "hypot (f_x (baseAt 0 0) - w_x centreWall) (f_y (baseAt 0 0) - w_y centreWall) = 0"
    by (simp add: baseAt_def new_BaseFighter_def new_Fighter_def centreWall_def)
  from no_zero_denominator [of "(0, 0, 0, 0)" coincidentArena 0 0 GRAVITY_STRENGTH "baseAt 0 0" centreWall]
    a b show ?thesis by blast
qed

section \<open>Body damage and the contact flag\<close>

text \<open>
  The flag \<open>ballsInCollision\<close> after the body collision is set exactly when the circles overlap
  with centres apart (\<open>0 < dist < minDist\<close>) or a square or bullet hit occurred (lemma
  \<open>bodyPhase_Some\<close>). While the flag is set, no body damage is dealt.
\<close>

lemma bodyDamage_suppressed: "bodyDamage True squareHit bulletHit f1 f2 = (f1, f2)"
  by (simp add: bodyDamage_def)

subsection \<open>Two base fighters on the axis\<close>

lemma baseState_fields [simp]:
  "f_x (baseState px vx h t) = px" "f_y (baseState px vx h t) = 0"
  "f_vx (baseState px vx h t) = vx" "f_vy (baseState px vx h t) = 0"
  "hp (baseState px vx h t) = h" "maxHp (baseState px vx h t) = 100"
  "strength (baseState px vx h t) = 1" "radius (baseState px vx h t) = 30"
  "dealsBodyDamage (baseState px vx h t)" "speedMultiplier (baseState px vx h t) = 1"
  "variant (baseState px vx h t) = BaseFighter t"
  by (simp_all add: baseState_def new_BaseFighter_def new_Fighter_def)

lemma baseState_update [simp]:
  "(baseState px vx h t) \<lparr> f_vx := vx' \<rparr> = baseState px vx' h t"
  "(baseState px vx h t) \<lparr> f_x := px' \<rparr> = baseState px' vx h t"
  "(baseState px vx h t) \<lparr> hp := h' \<rparr> = baseState px vx h' t"
  "(baseState px vx h t) \<lparr> variant := BaseFighter t' \<rparr> = baseState px vx h t'"
  "(baseState px vx h t) \<lparr> f_vy := 0 \<rparr> = baseState px vx h t"
  "(baseState px vx h t) \<lparr> f_y := 0 \<rparr> = baseState px vx h t"
  by (simp_all add: baseState_def new_BaseFighter_def new_Fighter_def)

lemma gravity_baseState:
  "applyGravity 0 0 GRAVITY_STRENGTH (baseState px vx h t) =
     Some (baseState px (if px < 0 then vx + 1 / 2 else if px = 0 then vx else vx - 1 / 2) h t)"
  by (simp add: applyGravity_Some GRAVITY_STRENGTH_def abs_if)

lemma damping_baseState:
  "applyDamping DAMPING (baseState px vx h t) = baseState px (vx * 49 / 50) h t"
  by (simp add: applyDamping_def DAMPING_def)

lemma position_baseState:
  "updatePosition (baseState px vx h t) = baseState (px + vx) vx h t"
  by (simp add: updatePosition_def)

lemma passive_baseState:
  "50 \<le> h \<Longrightarrow> passiveAbility 0 0 (baseState px vx h t) = baseState px vx h (t + 1)"
  by (simp add: passiveAbility_def Base_passiveAbility_def Let_def)

lemma movePhase_baseState:
  assumes "50 \<le> h1" and "50 \<le> h2"
  shows "movePhase 0 0 (baseState x1 v1 h1 t1) (baseState x2 v2 h2 t2) =
     Some (baseState (x1 + (if x1 < 0 then v1 + 1 / 2 else if x1 = 0 then v1 else v1 - 1 / 2) * 49 / 50)
                     ((if x1 < 0 then v1 + 1 / 2 else if x1 = 0 then v1 else v1 - 1 / 2) * 49 / 50) h1 (t1 + 1),
           baseState (x2 + (if x2 < 0 then v2 + 1 / 2 else if x2 = 0 then v2 else v2 - 1 / 2) * 49 / 50)
                     ((if x2 < 0 then v2 + 1 / 2 else if x2 = 0 then v2 else v2 - 1 / 2) * 49 / 50) h2 (t2 + 1))"
  using assms
  by (simp add: movePhase_def gravity_baseState damping_baseState position_baseState
      passive_baseState Let_def)

lemma squarePhase_Base:
  "variant f1 = BaseFighter t1 \<Longrightarrow> variant f2 = BaseFighter t2 \<Longrightarrow>
     squarePhase inColl f1 f2 = (f1, f2, False)"
  by (simp add: squarePhase_def)

lemma bulletPhase_Base:
  "variant f1 = BaseFighter t1 \<Longrightarrow> variant f2 = BaseFighter t2 \<Longrightarrow>
     bulletPhase f1 f2 = (f1, f2, False)"
  by (simp add: bulletPhase_def)

lemma bodyDamage_baseState:
  "bodyDamage inColl False False (baseState x1 v1 h1 t1) (baseState x2 v2 h2 t2) =
     (baseState x1 v1 (if inColl then h1 else max 0 (h1 - 1)) t1,
      baseState x2 v2 (if inColl then h2 else max 0 (h2 - 1)) t2)"
  by (simp add: bodyDamage_def Let_def)

lemma bodyPhase_baseState:
  assumes "0 < dst" and "dst < 60"
  shows "bodyPhase (0, 0, 0, 0) dst 60 inColl False False
           (baseState x1 v1 h1 t1) (baseState x2 v2 h2 t2) =
         Some (baseState (x1 - (x2 - x1) / dst * (60 - dst) * 0.5) v1
                 (if inColl then h1 else max 0 (h1 - 1)) t1,
               baseState (x2 + (x2 - x1) / dst * (60 - dst) * 0.5) v2
                 (if inColl then h2 else max 0 (h2 - 1)) t2,
               True)"
  using assms
  by (simp add: bodyPhase_def bodyDamage_baseState unit_vector_def Let_def)

lemma bodyPhase_apart:
  "\<not> (dst < minDist \<and> dst > 0) \<Longrightarrow>
     bodyPhase rnd dst minDist inColl False False f1 f2 = Some (f1, f2, False)"
  by (cases rnd) (auto simp: bodyPhase_def)

lemma hypot_ge_abs: "\<bar>dx\<bar> \<le> hypot dx dy" "\<bar>dy\<bar> \<le> hypot dx dy"
proof -
  have "sqrt (dx * dx) \<le> sqrt (dx * dx + dy * dy)" by (rule real_sqrt_le_mono) simp
  then show "\<bar>dx\<bar> \<le> hypot dx dy" by (simp add: hypot_def)
  have "sqrt (dy * dy) \<le> sqrt (dx * dx + dy * dy)" by (rule real_sqrt_le_mono) simp
  then show "\<bar>dy\<bar> \<le> hypot dx dy" by (simp add: hypot_def)
qed

lemma wall_far:
  assumes "radius f + w_radius w \<le> \<bar>f_x f - w_x w\<bar> \<or> radius f + w_radius w \<le> \<bar>f_y f - w_y w\<bar>"
  shows "checkCollisionWithWall f w = Some f"
proof -
  have "radius f + w_radius w \<le> hypot (f_x f - w_x w) (f_y f - w_y w)"
    using assms hypot_ge_abs(1) [where dx = "f_x f - w_x w" and dy = "f_y f - w_y w"]
      hypot_ge_abs(2) [where dx = "f_x f - w_x w" and dy = "f_y f - w_y w"] by linarith
  then show ?thesis by (simp add: checkCollisionWithWall_Some Let_def)
qed

lemma wallPhase_baseState:
  assumes "\<bar>x1\<bar> \<le> 300" and "\<bar>x2\<bar> \<le> 300"
  shows "wallPhase (walls (duel a b c)) (baseState x1 v1 h1 t1) (baseState x2 v2 h2 t2) =
           Some (baseState x1 v1 h1 t1, baseState x2 v2 h2 t2)"
  using assms
  by (simp add: duel_def updateWalls_def wall_far WALL_DISTANCE_def WALL_RADIUS_def)

lemma duel_fields [simp]:
  "fighter1 (duel a b c) = Some a" "fighter2 (duel a b c) = Some b"
  "ballsInCollision (duel a b c) = c" "centerX (duel a b c) = 0" "centerY (duel a b c) = 0"
  by (simp_all add: duel_def updateWalls_def)

lemma duel_update:
  "(duel a b c) \<lparr> fighter1 := Some a', fighter2 := Some b', ballsInCollision := c' \<rparr> = duel a' b' c'"
  by (simp add: duel_def updateWalls_def)

lemmas tick_eval =
  updatePhysics_def movePhase_baseState getDistanceTo_def squarePhase_Base bulletPhase_Base
  bodyPhase_baseState bodyPhase_apart wallPhase_baseState duel_update Let_def

text \<open>
  Claim C6 says that within a run of consecutive ticks in which the circles overlap, body
  damage is dealt on the first tick only, and that the flag resets only when the centres are
  at least the sum of the radii apart. The code resets the flag also when the centres
  coincide. Two base fighters (radius \<open>30\<close> each, \<open>Math.random()\<close> returning \<open>0\<close>) meet head-on:
  in three consecutive ticks the distance of the centres at the collision test is \<open>40\<close>, \<open>0\<close>
  and \<open>58.8\<close>, below \<open>60\<close> each time. The first tick deals body damage and sets the flag; the
  second, at distance \<open>0\<close>, clears the flag; the third deals body damage again: the health of
  each fighter goes \<open>100\<close>, \<open>99\<close>, \<open>99\<close>, \<open>98\<close>.
\<close>

theorem body_damage_reapplied_after_coincidence:
  "updatePhysics (0, 0, 0, 0) overlapRun0 = Some overlapRun1 \<and>
   updatePhysics (0, 0, 0, 0) overlapRun1 = Some overlapRun2 \<and>
   updatePhysics (0, 0, 0, 0) overlapRun2 = Some overlapRun3 \<and>
   map contactDistance [overlapRun0, overlapRun1, overlapRun2] = [Some 40, Some 0, Some 58.8] \<and>
   map (map_option radius \<circ> fighter1) [overlapRun0, overlapRun1, overlapRun2]
     = [Some 30, Some 30, Some 30] \<and>
   map (map_option radius \<circ> fighter2) [overlapRun0, overlapRun1, overlapRun2]
     = [Some 30, Some 30, Some 30] \<and>
   map ballsInCollision [overlapRun0, overlapRun1, overlapRun2, overlapRun3]
     = [False, True, False, True] \<and>
   map (map_option hp \<circ> fighter1) [overlapRun0, overlapRun1, overlapRun2, overlapRun3]
     = [Some 100, Some 99, Some 99, Some 98] \<and>
   map (map_option hp \<circ> fighter2) [overlapRun0, overlapRun1, overlapRun2, overlapRun3]
     = [Some 100, Some 99, Some 99, Some 98]"
proof -
  have ticks:
    "updatePhysics (0, 0, 0, 0) overlapRun0 = Some overlapRun1"
    "updatePhysics (0, 0, 0, 0) overlapRun1 = Some overlapRun2"
    "updatePhysics (0, 0, 0, 0) overlapRun2 = Some overlapRun3"
    by (simp_all add: overlapRun0_def overlapRun1_def overlapRun2_def overlapRun3_def tick_eval)
  have dists:
    "map contactDistance [overlapRun0, overlapRun1, overlapRun2] = [Some 40, Some 0, Some 58.8]"
    by (simp add: contactDistance_def overlapRun0_def overlapRun1_def overlapRun2_def
        movePhase_baseState getDistanceTo_def)
  have obs:
    "map (map_option radius \<circ> fighter1) [overlapRun0, overlapRun1, overlapRun2]
       = [Some 30, Some 30, Some 30]"
    "map (map_option radius \<circ> fighter2) [overlapRun0, overlapRun1, overlapRun2]
       = [Some 30, Some 30, Some 30]"
    "map ballsInCollision [overlapRun0, overlapRun1, overlapRun2, overlapRun3]
       = [False, True, False, True]"
    "map (map_option hp \<circ> fighter1) [overlapRun0, overlapRun1, overlapRun2, overlapRun3]
       = [Some 100, Some 99, Some 99, Some 98]"
    "map (map_option hp \<circ> fighter2) [overlapRun0, overlapRun1, overlapRun2, overlapRun3]
       = [Some 100, Some 99, Some 99, Some 98]"
    by (simp_all add: overlapRun0_def overlapRun1_def overlapRun2_def overlapRun3_def)
  from ticks dists obs show ?thesis by (intro conjI)
qed

section \<open>The damage of a bullet over a whole tick\<close>

lemma archerAfterShot_state:
  "archerAfterShot = archerState (cos (2 / 25) * 41.76) (sin (2 / 25) * 42) True 0.08 25.5"
  by (simp add: archerAfterShot_eq archerState_def)

lemma sin_small: "\<bar>sin (2 / 25 :: real)\<bar> \<le> 2 / 25"
  using abs_sin_x_le_abs_x [of "2 / 25 :: real"] by simp

lemma cos_near_one: "1242 / 1250 \<le> cos (2 / 25 :: real)" "cos (2 / 25 :: real) \<le> 1"
proof -
  let ?c = "cos (2 / 25 :: real)" and ?s = "sin (2 / 25 :: real)"
  have "(2 / 25 :: real) \<le> pi / 2" using pi_ge_two by simp
  moreover have "- (pi / 2) \<le> (2 / 25 :: real)" using pi_ge_two by simp
  ultimately have c0: "0 \<le> ?c" by (rule cos_ge_zero [rotated])
  show c1: "?c \<le> 1" by simp
  have "?s\<^sup>2 \<le> (2 / 25)\<^sup>2"
    using sin_small by (simp add: abs_le_square_iff [symmetric] del: abs_sin_le_one)
  then have "1 - (2 / 25)\<^sup>2 \<le> ?c\<^sup>2"
    using sin_cos_squared_add [of "2 / 25 :: real"] by linarith
  moreover have "?c\<^sup>2 \<le> ?c"
    using c0 c1 by (simp add: power2_eq_square mult_left_le)
  ultimately show "1242 / 1250 \<le> ?c" by (simp add: power2_eq_square)
qed

lemma second_step_in_range:
  "\<not> 500 < hypot (cos (2 / 25) * 55.52) (sin (2 / 25) * 56)"
proof -
  have "\<bar>cos (2 / 25 :: real) * 55.52\<bar> \<le> 55.52" "\<bar>sin (2 / 25 :: real) * 56\<bar> \<le> 56"
    by (simp_all add: abs_mult)
  then have "hypot (cos (2 / 25) * 55.52) (sin (2 / 25) * 56) \<le> 55.52 + 56"
    by (rule hypot_bound)
  then show ?thesis by simp
qed

lemma shot_reaches_target:
  "hypot (cos (2 / 25) * 55.52 - 59.51) (sin (2 / 25) * 56 - 0) < 5 + 30"
proof -
  have "\<bar>cos (2 / 25 :: real) * (1388 / 25) - 5951 / 100\<bar> \<le> 5"
    using cos_near_one by linarith
  then have x: "\<bar>cos (2 / 25 :: real) * 55.52 - 59.51\<bar> \<le> 5"
    by simp
  have "\<bar>sin (2 / 25 :: real) * 56\<bar> \<le> 5"
    using sin_small by linarith
  then have y: "\<bar>sin (2 / 25 :: real) * 56 - 0\<bar> \<le> 5"
    by simp
  from x y have "hypot (cos (2 / 25) * 55.52 - 59.51) (sin (2 / 25) * 56 - 0) \<le> 5 + 5"
    by (rule hypot_bound)
  then show ?thesis by simp
qed

lemma shot_move: "movePhase 0 0 archerAfterShot shotTarget0 = Some (shotArcher1, shotTarget1)"
proof -
  have a: "applyGravity 0 0 GRAVITY_STRENGTH archerAfterShot = Some archerAfterShot"
    by (simp add: applyGravity_Some archerAfterShot_state archerState_def new_ArcherFighter_def
        new_Fighter_def)
  have b: "applyDamping DAMPING archerAfterShot = archerAfterShot"
    by (simp add: applyDamping_def archerAfterShot_state archerState_def new_ArcherFighter_def
        new_Fighter_def)
  have c: "updatePosition archerAfterShot = archerAfterShot"
    by (simp add: updatePosition_def archerAfterShot_state archerState_def new_ArcherFighter_def
        new_Fighter_def)
  have r: "\<not> 500 < hypot (cos (2 / 25) * 41.76 + cos (2 / 25) * 13.76)
                          (sin (2 / 25) * 42 + sin (2 / 25) * 14)"
    using second_step_in_range by (simp add: algebra_simps)
  have d: "passiveAbility 0 0 archerAfterShot = shotArcher1"
    using r
    by (simp add: passiveAbility_def Archer_passiveAbility_def updateBullets_def updateBullet_def
        archerAfterShot_state shotArcher1_def archerState_def new_ArcherFighter_def new_Fighter_def
        Let_def algebra_simps)
  have e: "passiveAbility 0 0 (updatePosition (applyDamping DAMPING
             (baseState 60 (0 - 1 / 2) 100 0))) = shotTarget1"
    by (simp add: damping_baseState position_baseState passive_baseState shotTarget1_def)
  have f: "applyGravity 0 0 GRAVITY_STRENGTH shotTarget0 = Some (baseState 60 (0 - 1 / 2) 100 0)"
    by (simp add: shotTarget0_def gravity_baseState)
  show ?thesis
    by (simp only: movePhase_def a f b c d e Let_def bind.bind_lunit)
qed


lemma shot_square: "squarePhase False shotArcher1 shotTarget1 = (shotArcher1, shotTarget1, False)"
  by (simp add: squarePhase_def shotArcher1_def shotTarget1_def archerState_def)

lemma shot_bullet: "bulletPhase shotArcher1 shotTarget1 = (shotArcher2, shotTarget2, True)"
proof -
  have h: "hypot (cos (2 / 25) * 1388 / 25 - 5951 / 100) (sin (2 / 25) * 56) < 35"
    using shot_reaches_target by simp
  show ?thesis
    using h
    by (simp add: bulletPhase_def checkBulletCollision_def bulletHits_def getBulletDamage_def
        shotArcher1_def shotArcher2_def shotTarget1_def shotTarget2_def archerState_def Let_def)
qed

lemma shot_distance: "getDistanceTo shotArcher1 shotTarget1 = 59.51"
  "radius shotArcher1 + radius shotTarget1 = 58"
  by (simp_all add: getDistanceTo_def shotArcher1_def shotTarget1_def archerState_def
      new_ArcherFighter_def new_Fighter_def)

lemma bodyPhase_apart_hit:
  "\<not> (dst < minDist \<and> dst > 0) \<Longrightarrow>
     bodyPhase rnd dst minDist inColl squareHit True f1 f2 = Some (f1, f2, True)"
  by (cases rnd) (auto simp: bodyPhase_def)

lemma shot_body:
  "bodyPhase (0, 0, 0, 0) (5951 / 100) 58 False False True shotArcher2 shotTarget2
     = Some (shotArcher2, shotTarget2, True)"
  by (rule bodyPhase_apart_hit) simp

lemma shot_walls:
  "wallPhase (walls (duel a b c)) shotArcher2 shotTarget2 = Some (shotArcher2, shotTarget2)"
  by (simp add: duel_def updateWalls_def wall_far WALL_DISTANCE_def WALL_RADIUS_def
      shotArcher2_def shotTarget2_def archerState_def new_ArcherFighter_def new_Fighter_def)

lemma shot_tick: "updatePhysics (0, 0, 0, 0) shotArena0 = Some shotArena1"
  by (simp add: updatePhysics_def shotArena0_def shotArena1_def shot_move shot_square shot_bullet
      shot_distance shot_body shot_walls duel_update)

lemma shot_obs:
  "carriedDamages archerAfterShot = [3]" "strength archerAfterShot = 5"
  "map_option hp (fighter2 shotArena0) = Some 100" "map_option hp (fighter2 shotArena1) = Some 95"
  by (simp_all add: archerAfterShot_eq carriedDamages_def shotArena0_def shotArena1_def
      shotTarget0_def shotTarget2_def)

text \<open>
  Claim C2 says that a bullet that strikes deals the damage it carries, copied from the
  archer's strength when it was emitted. The code stores that value in the bullet and never
  uses it: the damage dealt is \<open>getBulletDamage\<close>, the strength of the archer at the moment of
  impact, dealt once per tick however many bullets strike. A new archer emits its first
  bullet at strength \<open>3\<close> and then gains strength twice; in the next tick the bullet, carrying
  \<open>3\<close>, strikes a new base fighter, whose health goes from \<open>100\<close> to \<open>95\<close>. And when two bullets
  carrying \<open>3\<close> each strike in the same tick, both are spent and the target loses \<open>3\<close>, not \<open>6\<close>.
\<close>

theorem bullet_damage_ignores_carried_value:
  "fighter1 shotArena0 = Some archerAfterShot \<and>
   carriedDamages archerAfterShot = [3] \<and>
   strength archerAfterShot = 5 \<and>
   map_option hp (fighter2 shotArena0) = Some 100 \<and>
   updatePhysics (0, 0, 0, 0) shotArena0 = Some shotArena1 \<and>
   map_option hp (fighter2 shotArena1) = Some 95 \<and>
   carriedDamages archerTwoShots = [3, 3] \<and>
   activeFlags archerTwoShots = [True, True] \<and>
   hp (baseAt 42 0) = 100 \<and>
   activeFlags (fst (bulletPhase archerTwoShots (baseAt 42 0))) = [False, False] \<and>
   hp (fst (snd (bulletPhase archerTwoShots (baseAt 42 0)))) = 97"
proof -
  have two:
    "carriedDamages archerTwoShots = [3, 3]"
    "activeFlags archerTwoShots = [True, True]"
    "hp (baseAt 42 0) = 100"
    "activeFlags (fst (bulletPhase archerTwoShots (baseAt 42 0))) = [False, False]"
    "hp (fst (snd (bulletPhase archerTwoShots (baseAt 42 0)))) = 97"
    by (simp_all add: archerTwoShots_def carriedDamages_def activeFlags_def baseAt_def
        new_BaseFighter_def new_ArcherFighter_def new_Fighter_def bulletPhase_def
        checkBulletCollision_def bulletHits_def getBulletDamage_def Let_def)
  have one: "fighter1 shotArena0 = Some archerAfterShot"
    by (simp add: shotArena0_def)
  from one shot_obs shot_tick two show ?thesis by (intro conjI)
qed

section \<open>The health over whole ticks\<close>

lemma strengthGainRate_takeDamage [simp]:
  "strengthGainRate (takeDamage d f) = strengthGainRate f"
  by (cases "variant f"; simp add: takeDamage_def Fighter_takeDamage_def Heavy_takeDamage_def)

lemma passiveAbility_frame [simp]:
  "strength (passiveAbility cX cY f) = strength f"
  "strengthGainRate (passiveAbility cX cY f) = strengthGainRate f"
  by (cases "variant f";
      simp add: passiveAbility_def Base_passiveAbility_def Heavy_passiveAbility_def
        Archer_passiveAbility_def Let_def)+

lemma fighterOK_takeDamage: "fighterOK f \<Longrightarrow> 0 \<le> d \<Longrightarrow> fighterOK (takeDamage d f)"
  by (simp add: fighterOK_def takeDamage_hpInRange)

lemma fighterOK_passive: "fighterOK f \<Longrightarrow> fighterOK (passiveAbility cX cY f)"
  by (simp add: fighterOK_def passiveAbility_hpInRange)

lemma fighterOK_moved [simp]:
  "fighterOK (f\<lparr> f_x := a \<rparr>) = fighterOK f" "fighterOK (f\<lparr> f_y := a \<rparr>) = fighterOK f"
  "fighterOK (f\<lparr> f_vx := a \<rparr>) = fighterOK f" "fighterOK (f\<lparr> f_vy := a \<rparr>) = fighterOK f"
  "fighterOK (f\<lparr> variant := v \<rparr>) = fighterOK f"
  by (simp_all add: fighterOK_def hpInRange_def)

lemma fighterOK_wall:
  "fighterOK f \<Longrightarrow> checkCollisionWithWall f w = Some f' \<Longrightarrow> fighterOK f'"
  by (auto simp: checkCollisionWithWall_Some Let_def split: if_splits)

lemma fighterOK_wallPhase:
  "fighterOK f1 \<Longrightarrow> fighterOK f2 \<Longrightarrow> wallPhase ws f1 f2 = Some (w1, w2) \<Longrightarrow>
     fighterOK w1 \<and> fighterOK w2"
proof (induction ws arbitrary: f1 f2)
  case Nil
  then show ?case by simp
next
  case (Cons w ws)
  from Cons.prems(3) obtain g1 g2 where
    g: "checkCollisionWithWall f1 w = Some g1" "checkCollisionWithWall f2 w = Some g2"
       "wallPhase ws g1 g2 = Some (w1, w2)"
    by (auto simp: bind_eq_Some_conv)
  from Cons.prems(1,2) g(1,2) have "fighterOK g1" "fighterOK g2"
    by (auto intro: fighterOK_wall)
  with Cons.IH g(3) show ?case by blast
qed

lemma fighterOK_movePhase:
  "fighterOK f1 \<Longrightarrow> fighterOK f2 \<Longrightarrow> movePhase cX cY f1 f2 = Some (p1, p2) \<Longrightarrow>
     fighterOK p1 \<and> fighterOK p2"
  by (auto simp: movePhase_def applyGravity_Some applyDamping_def updatePosition_def Let_def
        intro!: fighterOK_passive)

lemma fighterOK_strength: "fighterOK f \<Longrightarrow> 0 \<le> strength f"
  by (simp add: fighterOK_def)

lemma fighterOK_squarePhase:
  assumes "fighterOK f1" and "fighterOK f2" and "squarePhase c f1 f2 = (q1, q2, h)"
  shows "fighterOK q1 \<and> fighterOK q2"
  using assms fighterOK_strength [OF assms(1)] fighterOK_strength [OF assms(2)]
  by (auto simp: squarePhase_def Let_def fighterOK_takeDamage
        simp del: takeDamage_Base takeDamage_Archer
        split: variant.splits if_splits prod.splits)

lemma fighterOK_bulletPhase:
  assumes "fighterOK f1" and "fighterOK f2" and "bulletPhase f1 f2 = (q1, q2, h)"
  shows "fighterOK q1 \<and> fighterOK q2"
  using assms fighterOK_strength [OF assms(1)] fighterOK_strength [OF assms(2)]
  by (auto simp: bulletPhase_def Let_def getBulletDamage_def fighterOK_takeDamage
        simp del: takeDamage_Base takeDamage_Archer
        split: variant.splits if_splits prod.splits)

lemma fighterOK_bodyDamage:
  assumes "fighterOK f1" and "fighterOK f2" and "bodyDamage c sq bu f1 f2 = (q1, q2)"
  shows "fighterOK q1 \<and> fighterOK q2"
  using assms fighterOK_strength [OF assms(1)] fighterOK_strength [OF assms(2)]
  by (auto simp: bodyDamage_def Let_def fighterOK_takeDamage
        simp del: takeDamage_Base takeDamage_Archer
        split: if_splits)

lemma fighterOK_bodyPhase:
  assumes "fighterOK f1" and "fighterOK f2"
    and "bodyPhase rnd dst minDist c sq bu f1 f2 = Some (q1, q2, fl)"
  shows "fighterOK q1 \<and> fighterOK q2"
proof -
  obtain d1 d2 where d: "bodyDamage c sq bu f1 f2 = (d1, d2)"
    by (cases "bodyDamage c sq bu f1 f2")
  with assms(1,2) have ok: "fighterOK d1" "fighterOK d2"
    using fighterOK_bodyDamage by blast+
  from assms(3) d ok assms(1,2) show ?thesis
    by (cases rnd) (auto simp: bodyPhase_def unit_vector_def Let_def split: if_splits)
qed

text \<open>
  A whole tick, for any values of \<open>Math.random()\<close>, and the strength timer keep both
  fighters' health within \<open>[0, maxHp]\<close>; so does every created fighter start.
\<close>

lemma updatePhysics_keeps_health_in_range:
  assumes "arenaOK s"
  shows "\<exists>s'. updatePhysics rnd s = Some s' \<and> arenaOK s'"
proof -
  obtain s' where s': "updatePhysics rnd s = Some s'"
    using updatePhysics_Some by blast
  have "arenaOK s'"
  proof (cases "fighter1 s")
    case None
    with s' assms show ?thesis by (simp add: updatePhysics_def)
  next
    case f1: (Some f1)
    show ?thesis
    proof (cases "fighter2 s")
      case None
      with f1 s' assms show ?thesis by (simp add: updatePhysics_def)
    next
      case f2: (Some f2)
      from assms f1 f2 have ok: "fighterOK f1" "fighterOK f2"
        by (simp_all add: arenaOK_def)
      obtain p1 p2 where m: "movePhase (centerX s) (centerY s) f1 f2 = Some (p1, p2)"
        using movePhase_Some by blast
      obtain q1 q2 sq where q: "squarePhase (ballsInCollision s) p1 p2 = (q1, q2, sq)"
        by (metis prod_cases3)
      obtain b1 b2 bu where b: "bulletPhase q1 q2 = (b1, b2, bu)"
        by (metis prod_cases3)
      obtain c1 c2 fl where c:
        "bodyPhase rnd (getDistanceTo p1 p2) (radius p1 + radius p2) (ballsInCollision s) sq bu b1 b2
           = Some (c1, c2, fl)"
        using bodyPhase_Some by blast
      obtain w1 w2 where w: "wallPhase (walls s) c1 c2 = Some (w1, w2)"
        using wallPhase_Some by blast
      from fighterOK_movePhase [OF ok m] have okp: "fighterOK p1" "fighterOK p2" by simp_all
      from fighterOK_squarePhase [OF okp q] have okq: "fighterOK q1" "fighterOK q2" by simp_all
      from fighterOK_bulletPhase [OF okq b] have okb: "fighterOK b1" "fighterOK b2" by simp_all
      from fighterOK_bodyPhase [OF okb c] have okc: "fighterOK c1" "fighterOK c2" by simp_all
      from fighterOK_wallPhase [OF okc w] have okw: "fighterOK w1" "fighterOK w2" by simp_all
      from f1 f2 m q b c w s' have "s' = s\<lparr> fighter1 := Some w1, fighter2 := Some w2,
                                              ballsInCollision := fl \<rparr>"
        by (simp add: updatePhysics_def Let_def)
      with okw show ?thesis by (simp add: arenaOK_def)
    qed
  qed
  with s' show ?thesis by blast
qed

lemma checkAndIncreaseStrength_arenaOK:
  "arenaOK s \<Longrightarrow> arenaOK (checkAndIncreaseStrength s)"
  by (auto simp: arenaOK_def checkAndIncreaseStrength_def gainStrength_def fighterOK_def
        hpInRange_def split: option.splits)

lemma createFighter_fighterOK: "fighterOK (createFighter ty cx cy n c)"
  by (simp add: createFighter_def new_BaseFighter_def new_HeavyFighter_def
      new_ArcherFighter_def new_Fighter_def hpInRange_def fighterOK_def)

end
